theory Spec2Isabelle
  imports Complex_Main
begin

section \<open>Static lookup tables\<close>

text \<open>
  The model-key table of \<^verbatim>\<open>opensky-api.ts\<close>: a JavaScript object literal, kept as an
  association list in source order. No key occurs twice, so \<open>map_of\<close> is the property
  lookup \<^verbatim>\<open>AIRCRAFT_MODELS[key]\<close>; a key that is not listed gives \<open>None\<close>
  (\<^verbatim>\<open>undefined\<close>). Properties inherited from \<^verbatim>\<open>Object.prototype\<close> are not modelled.
\<close>

record model_entry =
  name :: string
  icao24Prefixes :: "string list"

definition AIRCRAFT_MODELS :: "(string \<times> model_entry) list" where
  "AIRCRAFT_MODELS = [
    (''B707'', \<lparr>name = ''Boeing 707'', icao24Prefixes = [''B703'', ''B707'', ''B720'']\<rparr>),
    (''B717'', \<lparr>name = ''Boeing 717'', icao24Prefixes = [''B712'', ''B717'']\<rparr>),
    (''B727'', \<lparr>name = ''Boeing 727'', icao24Prefixes = [''B721'', ''B722'', ''B727'']\<rparr>),
    (''B737'', \<lparr>name = ''Boeing 737'', icao24Prefixes = [''B731'', ''B732'', ''B733'', ''B734'', ''B735'', ''B736'', ''B737'', ''B738'', ''B739'', ''B37M'', ''B38M'', ''B39M'', ''B3XM'']\<rparr>),
    (''B747'', \<lparr>name = ''Boeing 747'', icao24Prefixes = [''B741'', ''B742'', ''B743'', ''B744'', ''B748'', ''B74S'', ''B74R'', ''BLCF'']\<rparr>),
    (''B757'', \<lparr>name = ''Boeing 757'', icao24Prefixes = [''B752'', ''B753'']\<rparr>),
    (''B767'', \<lparr>name = ''Boeing 767'', icao24Prefixes = [''B762'', ''B763'', ''B764'']\<rparr>),
    (''B777'', \<lparr>name = ''Boeing 777'', icao24Prefixes = [''B772'', ''B773'', ''B77L'', ''B77W'', ''B779'', ''B77X'']\<rparr>),
    (''B787'', \<lparr>name = ''Boeing 787 Dreamliner'', icao24Prefixes = [''B788'', ''B789'', ''B78X'']\<rparr>),
    (''A220'', \<lparr>name = ''Airbus A220'', icao24Prefixes = [''BCS1'', ''BCS3'', ''A221'', ''A223'']\<rparr>),
    (''A300'', \<lparr>name = ''Airbus A300'', icao24Prefixes = [''A30B'', ''A306'', ''A3ST'']\<rparr>),
    (''A310'', \<lparr>name = ''Airbus A310'', icao24Prefixes = [''A310'', ''A306'']\<rparr>),
    (''A318'', \<lparr>name = ''Airbus A318'', icao24Prefixes = [''A318'']\<rparr>),
    (''A319'', \<lparr>name = ''Airbus A319'', icao24Prefixes = [''A319'', ''A19N'']\<rparr>),
    (''A320'', \<lparr>name = ''Airbus A320'', icao24Prefixes = [''A320'', ''A20N'']\<rparr>),
    (''A321'', \<lparr>name = ''Airbus A321'', icao24Prefixes = [''A321'', ''A21N'']\<rparr>),
    (''A330'', \<lparr>name = ''Airbus A330'', icao24Prefixes = [''A332'', ''A333'', ''A338'', ''A339'']\<rparr>),
    (''A340'', \<lparr>name = ''Airbus A340'', icao24Prefixes = [''A342'', ''A343'', ''A345'', ''A346'']\<rparr>),
    (''A350'', \<lparr>name = ''Airbus A350'', icao24Prefixes = [''A359'', ''A35K'']\<rparr>),
    (''A380'', \<lparr>name = ''Airbus A380'', icao24Prefixes = [''A388'']\<rparr>),
    (''A400M'', \<lparr>name = ''Airbus A400M Atlas'', icao24Prefixes = [''A400'']\<rparr>),
    (''E120'', \<lparr>name = ''Embraer EMB-120 Brasilia'', icao24Prefixes = [''E120'']\<rparr>),
    (''E135'', \<lparr>name = ''Embraer ERJ-135'', icao24Prefixes = [''E135'']\<rparr>),
    (''E145'', \<lparr>name = ''Embraer ERJ-145'', icao24Prefixes = [''E145'']\<rparr>),
    (''E170'', \<lparr>name = ''Embraer E-Jet E170'', icao24Prefixes = [''E170'']\<rparr>),
    (''E175'', \<lparr>name = ''Embraer E-Jet E175'', icao24Prefixes = [''E175'']\<rparr>),
    (''E190'', \<lparr>name = ''Embraer E-Jet E190'', icao24Prefixes = [''E190'']\<rparr>),
    (''E195'', \<lparr>name = ''Embraer E-Jet E195'', icao24Prefixes = [''E195'']\<rparr>),
    (''E290'', \<lparr>name = ''Embraer E190-E2'', icao24Prefixes = [''E290'']\<rparr>),
    (''E295'', \<lparr>name = ''Embraer E195-E2'', icao24Prefixes = [''E295'']\<rparr>),
    (''CRJ1'', \<lparr>name = ''Bombardier CRJ100'', icao24Prefixes = [''CRJ1'']\<rparr>),
    (''CRJ2'', \<lparr>name = ''Bombardier CRJ200'', icao24Prefixes = [''CRJ2'']\<rparr>),
    (''CRJ7'', \<lparr>name = ''Bombardier CRJ700'', icao24Prefixes = [''CRJ7'']\<rparr>),
    (''CRJ9'', \<lparr>name = ''Bombardier CRJ900'', icao24Prefixes = [''CRJ9'']\<rparr>),
    (''CRJX'', \<lparr>name = ''Bombardier CRJ1000'', icao24Prefixes = [''CRJX'']\<rparr>),
    (''DH8A'', \<lparr>name = ''Bombardier Dash 8-100'', icao24Prefixes = [''DH8A'']\<rparr>),
    (''DH8B'', \<lparr>name = ''Bombardier Dash 8-200'', icao24Prefixes = [''DH8B'']\<rparr>),
    (''DH8C'', \<lparr>name = ''Bombardier Dash 8-300'', icao24Prefixes = [''DH8C'']\<rparr>),
    (''DH8D'', \<lparr>name = ''Bombardier Dash 8-400'', icao24Prefixes = [''DH8D'']\<rparr>),
    (''AT42'', \<lparr>name = ''ATR 42'', icao24Prefixes = [''AT42'']\<rparr>),
    (''AT43'', \<lparr>name = ''ATR 42-300'', icao24Prefixes = [''AT43'']\<rparr>),
    (''AT44'', \<lparr>name = ''ATR 42-400'', icao24Prefixes = [''AT44'']\<rparr>),
    (''AT45'', \<lparr>name = ''ATR 42-500'', icao24Prefixes = [''AT45'']\<rparr>),
    (''AT46'', \<lparr>name = ''ATR 42-600'', icao24Prefixes = [''AT46'']\<rparr>),
    (''AT72'', \<lparr>name = ''ATR 72'', icao24Prefixes = [''AT72'']\<rparr>),
    (''AT73'', \<lparr>name = ''ATR 72-500'', icao24Prefixes = [''AT73'']\<rparr>),
    (''AT75'', \<lparr>name = ''ATR 72-600'', icao24Prefixes = [''AT75'']\<rparr>),
    (''F27'', \<lparr>name = ''Fokker 27'', icao24Prefixes = [''F27'']\<rparr>),
    (''F28'', \<lparr>name = ''Fokker 28'', icao24Prefixes = [''F28'']\<rparr>),
    (''F50'', \<lparr>name = ''Fokker 50'', icao24Prefixes = [''F50'']\<rparr>),
    (''F70'', \<lparr>name = ''Fokker 70'', icao24Prefixes = [''F70'']\<rparr>),
    (''F100'', \<lparr>name = ''Fokker 100'', icao24Prefixes = [''F100'']\<rparr>),
    (''DC3'', \<lparr>name = ''Douglas DC-3'', icao24Prefixes = [''DC3'']\<rparr>),
    (''DC6'', \<lparr>name = ''Douglas DC-6'', icao24Prefixes = [''DC6'']\<rparr>),
    (''DC8'', \<lparr>name = ''Douglas DC-8'', icao24Prefixes = [''DC81'', ''DC82'', ''DC83'', ''DC86'', ''DC87'']\<rparr>),
    (''DC9'', \<lparr>name = ''Douglas DC-9'', icao24Prefixes = [''DC91'', ''DC92'', ''DC93'', ''DC94'', ''DC95'']\<rparr>),
    (''MD11'', \<lparr>name = ''McDonnell Douglas MD-11'', icao24Prefixes = [''MD11'']\<rparr>),
    (''MD80'', \<lparr>name = ''McDonnell Douglas MD-80'', icao24Prefixes = [''MD81'', ''MD82'', ''MD83'', ''MD87'', ''MD88'']\<rparr>),
    (''MD90'', \<lparr>name = ''McDonnell Douglas MD-90'', icao24Prefixes = [''MD90'']\<rparr>),
    (''L188'', \<lparr>name = ''Lockheed Electra'', icao24Prefixes = [''L188'']\<rparr>),
    (''L1011'', \<lparr>name = ''Lockheed L-1011 TriStar'', icao24Prefixes = [''L101'']\<rparr>),
    (''C130'', \<lparr>name = ''Lockheed C-130 Hercules'', icao24Prefixes = [''C130'', ''L382'']\<rparr>),
    (''C25A'', \<lparr>name = ''Cessna Citation CJ2'', icao24Prefixes = [''C25A'']\<rparr>),
    (''C25B'', \<lparr>name = ''Cessna Citation CJ3'', icao24Prefixes = [''C25B'']\<rparr>),
    (''C25C'', \<lparr>name = ''Cessna Citation CJ4'', icao24Prefixes = [''C25C'']\<rparr>),
    (''C510'', \<lparr>name = ''Cessna Citation Mustang'', icao24Prefixes = [''C510'']\<rparr>),
    (''C525'', \<lparr>name = ''Cessna Citation CJ1'', icao24Prefixes = [''C525'']\<rparr>),
    (''C550'', \<lparr>name = ''Cessna Citation II'', icao24Prefixes = [''C550'']\<rparr>),
    (''C560'', \<lparr>name = ''Cessna Citation V'', icao24Prefixes = [''C560'']\<rparr>),
    (''C680'', \<lparr>name = ''Cessna Citation Sovereign'', icao24Prefixes = [''C680'']\<rparr>),
    (''C750'', \<lparr>name = ''Cessna Citation X'', icao24Prefixes = [''C750'']\<rparr>),
    (''GLF4'', \<lparr>name = ''Gulfstream IV'', icao24Prefixes = [''GLF4'']\<rparr>),
    (''GLF5'', \<lparr>name = ''Gulfstream V'', icao24Prefixes = [''GLF5'']\<rparr>),
    (''GLF6'', \<lparr>name = ''Gulfstream G650'', icao24Prefixes = [''GLF6'']\<rparr>),
    (''H25B'', \<lparr>name = ''Hawker 800'', icao24Prefixes = [''H25B'']\<rparr>),
    (''LJ35'', \<lparr>name = ''Learjet 35'', icao24Prefixes = [''LJ35'']\<rparr>),
    (''LJ45'', \<lparr>name = ''Learjet 45'', icao24Prefixes = [''LJ45'']\<rparr>),
    (''LJ60'', \<lparr>name = ''Learjet 60'', icao24Prefixes = [''LJ60'']\<rparr>),
    (''C172'', \<lparr>name = ''Cessna 172'', icao24Prefixes = [''C172'']\<rparr>),
    (''C182'', \<lparr>name = ''Cessna 182'', icao24Prefixes = [''C182'']\<rparr>),
    (''C206'', \<lparr>name = ''Cessna 206'', icao24Prefixes = [''C206'']\<rparr>),
    (''C208'', \<lparr>name = ''Cessna 208 Caravan'', icao24Prefixes = [''C208'']\<rparr>),
    (''PA28'', \<lparr>name = ''Piper Cherokee'', icao24Prefixes = [''PA28'']\<rparr>),
    (''PA31'', \<lparr>name = ''Piper Navajo'', icao24Prefixes = [''PA31'']\<rparr>),
    (''PA46'', \<lparr>name = ''Piper Malibu'', icao24Prefixes = [''PA46'']\<rparr>),
    (''BE20'', \<lparr>name = ''Beechcraft King Air'', icao24Prefixes = [''BE20'']\<rparr>),
    (''BE36'', \<lparr>name = ''Beechcraft Bonanza'', icao24Prefixes = [''BE36'']\<rparr>),
    (''BE58'', \<lparr>name = ''Beechcraft Baron'', icao24Prefixes = [''BE58'']\<rparr>),
    (''AN12'', \<lparr>name = ''Antonov An-12'', icao24Prefixes = [''AN12'']\<rparr>),
    (''AN22'', \<lparr>name = ''Antonov An-22'', icao24Prefixes = [''AN22'']\<rparr>),
    (''AN24'', \<lparr>name = ''Antonov An-24'', icao24Prefixes = [''AN24'']\<rparr>),
    (''AN26'', \<lparr>name = ''Antonov An-26'', icao24Prefixes = [''AN26'']\<rparr>),
    (''AN28'', \<lparr>name = ''Antonov An-28'', icao24Prefixes = [''AN28'']\<rparr>),
    (''AN32'', \<lparr>name = ''Antonov An-32'', icao24Prefixes = [''AN32'']\<rparr>),
    (''AN124'', \<lparr>name = ''Antonov An-124'', icao24Prefixes = [''A124'']\<rparr>),
    (''AN225'', \<lparr>name = ''Antonov An-225 Mriya'', icao24Prefixes = [''A225'']\<rparr>),
    (''IL76'', \<lparr>name = ''Ilyushin Il-76'', icao24Prefixes = [''IL76'']\<rparr>),
    (''KC135'', \<lparr>name = ''Boeing KC-135 Stratotanker'', icao24Prefixes = [''KC135'', ''B752'']\<rparr>),
    (''C17'', \<lparr>name = ''Boeing C-17 Globemaster III'', icao24Prefixes = [''C17'']\<rparr>),
    (''C5'', \<lparr>name = ''Lockheed C-5 Galaxy'', icao24Prefixes = [''C5'']\<rparr>),
    (''KC10'', \<lparr>name = ''McDonnell Douglas KC-10 Extender'', icao24Prefixes = [''KC10'', ''DC10'']\<rparr>),
    (''KC46'', \<lparr>name = ''Boeing KC-46 Pegasus'', icao24Prefixes = [''KC46'']\<rparr>),
    (''A330MRTT'', \<lparr>name = ''Airbus A330 MRTT'', icao24Prefixes = [''A333'']\<rparr>),
    (''C130J'', \<lparr>name = ''Lockheed C-130J Super Hercules'', icao24Prefixes = [''C130'', ''L382'']\<rparr>),
    (''C295'', \<lparr>name = ''Airbus C295'', icao24Prefixes = [''C295'']\<rparr>),
    (''CN235'', \<lparr>name = ''CASA CN-235'', icao24Prefixes = [''CN35'']\<rparr>),
    (''C212'', \<lparr>name = ''CASA C-212 Aviocar'', icao24Prefixes = [''C212'']\<rparr>),
    (''V22'', \<lparr>name = ''Bell Boeing V-22 Osprey'', icao24Prefixes = [''V22'']\<rparr>),
    (''C27J'', \<lparr>name = ''Alenia C-27J Spartan'', icao24Prefixes = [''C27J'']\<rparr>),
    (''MV22'', \<lparr>name = ''MV-22 Osprey (Marines)'', icao24Prefixes = [''MV22'']\<rparr>),
    (''CV22'', \<lparr>name = ''CV-22 Osprey (Air Force)'', icao24Prefixes = [''CV22'']\<rparr>),
    (''P3'', \<lparr>name = ''Lockheed P-3 Orion'', icao24Prefixes = [''P3'']\<rparr>),
    (''P8'', \<lparr>name = ''Boeing P-8 Poseidon'', icao24Prefixes = [''P8'']\<rparr>),
    (''E3'', \<lparr>name = ''Boeing E-3 Sentry AWACS'', icao24Prefixes = [''E3'']\<rparr>),
    (''E2'', \<lparr>name = ''Northrop Grumman E-2 Hawkeye'', icao24Prefixes = [''E2'']\<rparr>),
    (''RC135'', \<lparr>name = ''Boeing RC-135 Rivet Joint'', icao24Prefixes = [''RC35'']\<rparr>),
    (''U2'', \<lparr>name = ''Lockheed U-2 Dragon Lady'', icao24Prefixes = [''U2'']\<rparr>),
    (''F16'', \<lparr>name = ''General Dynamics F-16 Fighting Falcon'', icao24Prefixes = [''F16'']\<rparr>),
    (''F15'', \<lparr>name = ''McDonnell Douglas F-15 Eagle'', icao24Prefixes = [''F15'']\<rparr>),
    (''F18'', \<lparr>name = ''McDonnell Douglas F/A-18 Hornet'', icao24Prefixes = [''F18'']\<rparr>),
    (''F35'', \<lparr>name = ''Lockheed Martin F-35 Lightning II'', icao24Prefixes = [''F35'']\<rparr>),
    (''A10'', \<lparr>name = ''Fairchild Republic A-10 Thunderbolt II'', icao24Prefixes = [''A10'']\<rparr>),
    (''AV8B'', \<lparr>name = ''McDonnell Douglas AV-8B Harrier II'', icao24Prefixes = [''AV8B'']\<rparr>),
    (''T6'', \<lparr>name = ''Beechcraft T-6 Texan II'', icao24Prefixes = [''T6'']\<rparr>),
    (''T38'', \<lparr>name = ''Northrop T-38 Talon'', icao24Prefixes = [''T38'']\<rparr>),
    (''T45'', \<lparr>name = ''McDonnell Douglas T-45 Goshawk'', icao24Prefixes = [''T45'']\<rparr>),
    (''UH60'', \<lparr>name = ''Sikorsky UH-60 Black Hawk'', icao24Prefixes = [''UH60'', ''H60'']\<rparr>),
    (''CH47'', \<lparr>name = ''Boeing CH-47 Chinook'', icao24Prefixes = [''CH47'']\<rparr>),
    (''AH64'', \<lparr>name = ''Boeing AH-64 Apache'', icao24Prefixes = [''AH64'']\<rparr>),
    (''UH1'', \<lparr>name = ''Bell UH-1 Iroquois (Huey)'', icao24Prefixes = [''UH1'']\<rparr>),
    (''CH53'', \<lparr>name = ''Sikorsky CH-53 Sea Stallion'', icao24Prefixes = [''CH53'']\<rparr>),
    (''SH60'', \<lparr>name = ''Sikorsky SH-60 Seahawk'', icao24Prefixes = [''SH60'']\<rparr>),
    (''AS50'', \<lparr>name = ''Airbus H125 (AS350)'', icao24Prefixes = [''AS50'']\<rparr>),
    (''AS55'', \<lparr>name = ''Airbus H155 (AS365)'', icao24Prefixes = [''AS55'']\<rparr>),
    (''EC30'', \<lparr>name = ''Airbus H130'', icao24Prefixes = [''EC30'']\<rparr>),
    (''EC35'', \<lparr>name = ''Airbus H135'', icao24Prefixes = [''EC35'']\<rparr>),
    (''EC45'', \<lparr>name = ''Airbus H145'', icao24Prefixes = [''EC45'']\<rparr>),
    (''B06'', \<lparr>name = ''Bell 206'', icao24Prefixes = [''B06'']\<rparr>),
    (''B407'', \<lparr>name = ''Bell 407'', icao24Prefixes = [''B407'']\<rparr>),
    (''B429'', \<lparr>name = ''Bell 429'', icao24Prefixes = [''B429'']\<rparr>),
    (''R22'', \<lparr>name = ''Robinson R22'', icao24Prefixes = [''R22'']\<rparr>),
    (''R44'', \<lparr>name = ''Robinson R44'', icao24Prefixes = [''R44'']\<rparr>),
    (''R66'', \<lparr>name = ''Robinson R66'', icao24Prefixes = [''R66'']\<rparr>)
  ]"

text \<open>The table local to \<^verbatim>\<open>mapTypeToModel\<close> in \<^verbatim>\<open>hexdb-api.ts\<close>.\<close>

definition typeMap :: "(string \<times> string) list" where
  "typeMap = [
    (''B703'', ''B707''), (''B707'', ''B707''), (''B720'', ''B707''), (''B712'', ''B717''),
    (''B717'', ''B717''), (''B721'', ''B727''), (''B722'', ''B727''), (''B727'', ''B727''),
    (''B731'', ''B737''), (''B732'', ''B737''), (''B733'', ''B737''), (''B734'', ''B737''),
    (''B735'', ''B737''), (''B736'', ''B737''), (''B737'', ''B737''), (''B738'', ''B737''),
    (''B739'', ''B737''), (''B37M'', ''B737''), (''B38M'', ''B737''), (''B39M'', ''B737''),
    (''B3XM'', ''B737''), (''B741'', ''B747''), (''B742'', ''B747''), (''B743'', ''B747''),
    (''B744'', ''B747''), (''B748'', ''B747''), (''B74S'', ''B747''), (''B74R'', ''B747''),
    (''BLCF'', ''B747''), (''B752'', ''B757''), (''B753'', ''B757''), (''B762'', ''B767''),
    (''B763'', ''B767''), (''B764'', ''B767''), (''B772'', ''B777''), (''B773'', ''B777''),
    (''B77L'', ''B777''), (''B77W'', ''B777''), (''B779'', ''B777''), (''B77X'', ''B777''),
    (''B788'', ''B787''), (''B789'', ''B787''), (''B78X'', ''B787''), (''BCS1'', ''A220''),
    (''BCS3'', ''A220''), (''A221'', ''A220''), (''A223'', ''A220''), (''A30B'', ''A300''),
    (''A306'', ''A300''), (''A3ST'', ''A300''), (''A310'', ''A310''), (''A318'', ''A318''),
    (''A319'', ''A319''), (''A19N'', ''A319''), (''A320'', ''A320''), (''A20N'', ''A320''),
    (''A321'', ''A321''), (''A21N'', ''A321''), (''A332'', ''A330''), (''A333'', ''A330''),
    (''A338'', ''A330''), (''A339'', ''A330''), (''A342'', ''A340''), (''A343'', ''A340''),
    (''A345'', ''A340''), (''A346'', ''A340''), (''A359'', ''A350''), (''A35K'', ''A350''),
    (''A388'', ''A380''), (''A400'', ''A400M''), (''E120'', ''E120''), (''E135'', ''E135''),
    (''E145'', ''E145''), (''E170'', ''E170''), (''E175'', ''E175''), (''E190'', ''E190''),
    (''E195'', ''E195''), (''E290'', ''E290''), (''E295'', ''E295''), (''CRJ1'', ''CRJ1''),
    (''CRJ2'', ''CRJ2''), (''CRJ7'', ''CRJ7''), (''CRJ9'', ''CRJ9''), (''CRJX'', ''CRJX''),
    (''DH8A'', ''DH8A''), (''DH8B'', ''DH8B''), (''DH8C'', ''DH8C''), (''DH8D'', ''DH8D''),
    (''AT42'', ''AT42''), (''AT43'', ''AT43''), (''AT44'', ''AT44''), (''AT45'', ''AT45''),
    (''AT46'', ''AT46''), (''AT72'', ''AT72''), (''AT73'', ''AT73''), (''AT75'', ''AT75''),
    (''F27'', ''F27''), (''F28'', ''F28''), (''F50'', ''F50''), (''F70'', ''F70''),
    (''F100'', ''F100''), (''DC3'', ''DC3''), (''DC6'', ''DC6''), (''DC81'', ''DC8''),
    (''DC82'', ''DC8''), (''DC83'', ''DC8''), (''DC86'', ''DC8''), (''DC87'', ''DC8''),
    (''DC91'', ''DC9''), (''DC92'', ''DC9''), (''DC93'', ''DC9''), (''DC94'', ''DC9''),
    (''DC95'', ''DC9''), (''MD11'', ''MD11''), (''MD81'', ''MD80''), (''MD82'', ''MD80''),
    (''MD83'', ''MD80''), (''MD87'', ''MD80''), (''MD88'', ''MD80''), (''MD90'', ''MD90''),
    (''L188'', ''L188''), (''L101'', ''L1011''), (''C130'', ''C130''), (''L382'', ''C130''),
    (''C25A'', ''C25A''), (''C25B'', ''C25B''), (''C25C'', ''C25C''), (''C510'', ''C510''),
    (''C525'', ''C525''), (''C550'', ''C550''), (''C560'', ''C560''), (''C680'', ''C680''),
    (''C750'', ''C750''), (''GLF4'', ''GLF4''), (''GLF5'', ''GLF5''), (''GLF6'', ''GLF6''),
    (''H25B'', ''H25B''), (''LJ35'', ''LJ35''), (''LJ45'', ''LJ45''), (''LJ60'', ''LJ60''),
    (''C172'', ''C172''), (''C182'', ''C182''), (''C206'', ''C206''), (''C208'', ''C208''),
    (''PA28'', ''PA28''), (''PA31'', ''PA31''), (''PA46'', ''PA46''), (''BE20'', ''BE20''),
    (''BE36'', ''BE36''), (''BE58'', ''BE58''), (''AN12'', ''AN12''), (''AN22'', ''AN22''),
    (''AN24'', ''AN24''), (''AN26'', ''AN26''), (''AN28'', ''AN28''), (''AN32'', ''AN32''),
    (''A124'', ''AN124''), (''A225'', ''AN225''), (''IL76'', ''IL76''), (''KC135'', ''KC135''),
    (''C17'', ''C17''), (''C5'', ''C5''), (''KC10'', ''KC10''), (''KC46'', ''KC46''),
    (''C295'', ''C295''), (''CN35'', ''CN235''), (''C212'', ''C212''), (''V22'', ''V22''),
    (''MV22'', ''MV22''), (''CV22'', ''CV22''), (''C27J'', ''C27J''), (''P3'', ''P3''),
    (''P8'', ''P8''), (''E3'', ''E3''), (''E2'', ''E2''), (''RC35'', ''RC135''),
    (''U2'', ''U2''), (''F16'', ''F16''), (''F15'', ''F15''), (''F18'', ''F18''),
    (''F35'', ''F35''), (''A10'', ''A10''), (''AV8B'', ''AV8B''), (''T6'', ''T6''),
    (''T38'', ''T38''), (''T45'', ''T45''), (''UH60'', ''UH60''), (''H60'', ''UH60''),
    (''CH47'', ''CH47''), (''AH64'', ''AH64''), (''UH1'', ''UH1''), (''CH53'', ''CH53''),
    (''SH60'', ''SH60''), (''AS50'', ''AS50''), (''AS55'', ''AS55''), (''EC30'', ''EC30''),
    (''EC35'', ''EC35''), (''EC45'', ''EC45''), (''B06'', ''B06''), (''B407'', ''B407''),
    (''B429'', ''B429''), (''R22'', ''R22''), (''R44'', ''R44''), (''R66'', ''R66'')
  ]"

text \<open>
  \<^verbatim>\<open>mapTypeToModel(typeCode: string | undefined): string | null\<close>. The guard
  \<^verbatim>\<open>!typeCode\<close> rejects \<^verbatim>\<open>undefined\<close> and the empty string; \<^verbatim>\<open>typeMap[typeCode] || null\<close>
  turns a missing (or empty) entry into \<^verbatim>\<open>null\<close>.
\<close>

definition mapTypeToModel :: "string option \<Rightarrow> string option" where
  "mapTypeToModel typeCode =
     (case typeCode of
        None \<Rightarrow> None
      | Some tc \<Rightarrow>
          if tc = [] then None
          else (case map_of typeMap tc of
                  None \<Rightarrow> None
                | Some m \<Rightarrow> if m = [] then None else Some m))"

section \<open>Geo provider (\<^verbatim>\<open>opensky-api.ts\<close>)\<close>

text \<open>
  JavaScript numbers are modelled as \<open>real\<close>: rounding, \<^verbatim>\<open>NaN\<close> and the infinities of
  IEEE arithmetic are outside the model. A positional field of a state vector is
  \<open>Undefined\<close> (the array has no such index), \<open>Null\<close>, or a \<open>Value\<close> of the type the feed
  documents for that position; the fields the \<^verbatim>\<open>Aircraft\<close> interface declares
  mandatory are always present.
\<close>

datatype 'a js = Undefined | Null | Value 'a

record state_vector =
  state_0 :: string
  state_1 :: "string js"
  state_2 :: string
  state_3 :: "real js"
  state_4 :: real
  state_5 :: "real js"
  state_6 :: "real js"
  state_7 :: "real js"
  state_8 :: bool
  state_9 :: "real js"
  state_10 :: "real js"
  state_11 :: "real js"
  state_12 :: "real list js"
  state_13 :: "real js"
  state_14 :: "string js"
  state_15 :: bool
  state_16 :: real
  state_17 :: "real js"

record Aircraft =
  icao24 :: string
  callsign :: "string option"
  origin_country :: string
  time_position :: "real option"
  last_contact :: real
  longitude :: "real option"
  latitude :: "real option"
  baro_altitude :: "real option"
  on_ground :: bool
  velocity :: "real option"
  true_track :: "real option"
  vertical_rate :: "real option"
  sensors :: "real list option"
  geo_altitude :: "real option"
  squawk :: "string option"
  spi :: bool
  position_source :: real
  category :: "real option"

record BoundingBox =
  latMin :: real
  latMax :: real
  lonMin :: real
  lonMax :: real

text \<open>
  What \<^verbatim>\<open>axios.get\<close> settles to: the promise rejects with a thrown value, or resolves
  to a response with a status and a body; a body of \<open>None\<close> is a falsy
  \<^verbatim>\<open>response.data\<close>. A thrown value is an \<^verbatim>\<open>Error\<close> object with its message, or
  something else.
\<close>

datatype thrown = ErrorObject string | OtherValue

datatype 'd axios_result = Rejected thrown | Resolved nat "'d option"

record StateVector =
  time :: real
  states :: "state_vector list js"

text \<open>\<^verbatim>\<open>x || undefined\<close>, by the type of \<open>x\<close>: zero and the empty string are falsy, an array never is.\<close>

definition num_or_undefined :: "real js \<Rightarrow> real option" where
  "num_or_undefined x = (case x of Value r \<Rightarrow> if r = 0 then None else Some r | _ \<Rightarrow> None)"

definition str_or_undefined :: "string js \<Rightarrow> string option" where
  "str_or_undefined x = (case x of Value s \<Rightarrow> if s = [] then None else Some s | _ \<Rightarrow> None)"

definition arr_or_undefined :: "'a list js \<Rightarrow> 'a list option" where
  "arr_or_undefined x = (case x of Value xs \<Rightarrow> Some xs | _ \<Rightarrow> None)"

text \<open>\<^verbatim>\<open>String.prototype.trim\<close> on the ASCII white space and line terminators.\<close>

definition is_white_space :: "char \<Rightarrow> bool" where
  "is_white_space c \<longleftrightarrow> c \<in> set [CHR 0x20, CHR 0x09, CHR 0x0A, CHR 0x0B, CHR 0x0C, CHR 0x0D]"

definition trim :: "string \<Rightarrow> string" where
  "trim s = rev (dropWhile is_white_space (rev (dropWhile is_white_space s)))"

definition parseAircraft :: "state_vector \<Rightarrow> Aircraft" where
  "parseAircraft state = \<lparr>
     icao24 = state_0 state,
     callsign = (case state_1 state of
                   Value s \<Rightarrow> str_or_undefined (Value (trim s))
                 | _ \<Rightarrow> None),
     origin_country = state_2 state,
     time_position = num_or_undefined (state_3 state),
     last_contact = state_4 state,
     longitude = num_or_undefined (state_5 state),
     latitude = num_or_undefined (state_6 state),
     baro_altitude = num_or_undefined (state_7 state),
     on_ground = state_8 state,
     velocity = num_or_undefined (state_9 state),
     true_track = num_or_undefined (state_10 state),
     vertical_rate = num_or_undefined (state_11 state),
     sensors = arr_or_undefined (state_12 state),
     geo_altitude = num_or_undefined (state_13 state),
     squawk = str_or_undefined (state_14 state),
     spi = state_15 state,
     position_source = state_16 state,
     category = num_or_undefined (state_17 state)
   \<rparr>"

text \<open>
  \<^verbatim>\<open>getStatesInArea\<close>: the transport is the environment's answer to the query for a
  bounding box. A rejected request is caught and gives the empty list, as does a
  response whose \<^verbatim>\<open>data?.states\<close> is falsy.
\<close>

definition getStatesInArea ::
  "(BoundingBox \<Rightarrow> StateVector axios_result) \<Rightarrow> BoundingBox \<Rightarrow> Aircraft list" where
  "getStatesInArea transport boundingBox =
     (case transport boundingBox of
        Rejected err \<Rightarrow> []
      | Resolved status body \<Rightarrow>
          (case body of
             None \<Rightarrow> []
           | Some d \<Rightarrow>
               (case states d of
                  Value rows \<Rightarrow> map parseAircraft rows
                | _ \<Rightarrow> [])))"

text \<open>
  \<^verbatim>\<open>calculateBoundingBox\<close>. Where \<open>cos\<close> of the latitude is zero the source divides by
  zero (\<^verbatim>\<open>Infinity\<close>), which HOL's total division does not show; the box is only the
  query sent to the transport.
\<close>

definition calculateBoundingBox :: "real \<Rightarrow> real \<Rightarrow> real \<Rightarrow> BoundingBox" where
  "calculateBoundingBox lat lon radiusKm =
     (let latPerKm = 1 / 111.32;
          lonPerKm = 1 / (111.32 * cos (lat * pi / 180));
          latDelta = radiusKm * latPerKm;
          lonDelta = radiusKm * lonPerKm
      in \<lparr>latMin = lat - latDelta, latMax = lat + latDelta,
          lonMin = lon - lonDelta, lonMax = lon + lonDelta\<rparr>)"

text \<open>\<^verbatim>\<open>Math.atan2(y, x)\<close> on the reals.\<close>

definition atan2 :: "real \<Rightarrow> real \<Rightarrow> real" where
  "atan2 y x =
     (if 0 < x then arctan (y / x)
      else if x < 0 then (if 0 \<le> y then arctan (y / x) + pi else arctan (y / x) - pi)
      else if 0 < y then pi / 2
      else if y < 0 then - (pi / 2)
      else 0)"

definition calculateDistance :: "real \<Rightarrow> real \<Rightarrow> real \<Rightarrow> real \<Rightarrow> real" where
  "calculateDistance lat1 lon1 lat2 lon2 =
     (let R = 6371;
          dLat = (lat2 - lat1) * pi / 180;
          dLon = (lon2 - lon1) * pi / 180;
          a = sin (dLat / 2) * sin (dLat / 2) +
              cos (lat1 * pi / 180) * cos (lat2 * pi / 180) *
              sin (dLon / 2) * sin (dLon / 2);
          c = 2 * atan2 (sqrt a) (sqrt (1 - a))
      in R * c)"

text \<open>\<^verbatim>\<open>!x\<close> on an optional number: \<^verbatim>\<open>undefined\<close> and \<open>0\<close> are falsy.\<close>

definition falsy_num :: "real option \<Rightarrow> bool" where
  "falsy_num x \<longleftrightarrow> (case x of None \<Rightarrow> True | Some r \<Rightarrow> r = 0)"

text \<open>The callback of the \<^verbatim>\<open>filter\<close> in \<^verbatim>\<open>getAircraftInRadius\<close>.\<close>

definition within_radius :: "real \<Rightarrow> real \<Rightarrow> real \<Rightarrow> Aircraft \<Rightarrow> bool" where
  "within_radius lat lon radiusKm plane =
     (if falsy_num (latitude plane) \<or> falsy_num (longitude plane) then False
      else (let distance = calculateDistance lat lon (the (latitude plane)) (the (longitude plane))
            in distance \<le> radiusKm))"

definition getAircraftInRadius ::
  "(BoundingBox \<Rightarrow> StateVector axios_result) \<Rightarrow> real \<Rightarrow> real \<Rightarrow> real \<Rightarrow> Aircraft list" where
  "getAircraftInRadius transport lat lon radiusKm =
     (let boundingBox = calculateBoundingBox lat lon radiusKm;
          aircraft = getStatesInArea transport boundingBox
      in filter (within_radius lat lon radiusKm) aircraft)"

subsection \<open>The distance in the arithmetic of the engine\<close>

text \<open>
  \<open>calculateDistance\<close> above reads the numbers of the program as reals. What follows
  keeps what the reals leave out. A \<^verbatim>\<open>number\<close> is \<^verbatim>\<open>NaN\<close>, one of the two infinities
  or a finite value; the two zeros are one value, as they are for \<^verbatim>\<open>==\<close>, and an
  engine is taken not to tell them apart. The operators and the \<^verbatim>\<open>Math\<close> functions are
  those of the engine that runs the program, with whatever rounding it does, and are an
  argument of the function.
\<close>

datatype number = NaN | PosInfinity | NegInfinity | Finite real

record engine =
  num_add :: "number \<Rightarrow> number \<Rightarrow> number"
  num_sub :: "number \<Rightarrow> number \<Rightarrow> number"
  num_mul :: "number \<Rightarrow> number \<Rightarrow> number"
  num_div :: "number \<Rightarrow> number \<Rightarrow> number"
  Math_sin :: "number \<Rightarrow> number"
  Math_cos :: "number \<Rightarrow> number"
  Math_sqrt :: "number \<Rightarrow> number"
  Math_atan2 :: "number \<Rightarrow> number \<Rightarrow> number"
  Math_PI :: number

text \<open>
  The body of \<^verbatim>\<open>calculateDistance\<close>, operation by operation and in the order in which
  JavaScript evaluates it; \<open>haversine\<close> is its term \<^verbatim>\<open>a\<close>.
\<close>

definition calculateDistance_number ::
  "engine \<Rightarrow> number \<Rightarrow> number \<Rightarrow> number \<Rightarrow> number \<Rightarrow> number" where
  "calculateDistance_number e lat1 lon1 lat2 lon2 =
     (let R = Finite 6371;
          dLat = num_div e (num_mul e (num_sub e lat2 lat1) (Math_PI e)) (Finite 180);
          dLon = num_div e (num_mul e (num_sub e lon2 lon1) (Math_PI e)) (Finite 180);
          a = num_add e
                (num_mul e (Math_sin e (num_div e dLat (Finite 2)))
                           (Math_sin e (num_div e dLat (Finite 2))))
                (num_mul e
                   (num_mul e
                      (num_mul e
                         (Math_cos e (num_div e (num_mul e lat1 (Math_PI e)) (Finite 180)))
                         (Math_cos e (num_div e (num_mul e lat2 (Math_PI e)) (Finite 180))))
                      (Math_sin e (num_div e dLon (Finite 2))))
                   (Math_sin e (num_div e dLon (Finite 2))));
          c = num_mul e (Finite 2)
                (Math_atan2 e (Math_sqrt e a) (Math_sqrt e (num_sub e (Finite 1) a)))
      in num_mul e R c)"

definition haversine ::
  "engine \<Rightarrow> number \<Rightarrow> number \<Rightarrow> number \<Rightarrow> number \<Rightarrow> number" where
  "haversine e lat1 lon1 lat2 lon2 =
     (let dLat = num_div e (num_mul e (num_sub e lat2 lat1) (Math_PI e)) (Finite 180);
          dLon = num_div e (num_mul e (num_sub e lon2 lon1) (Math_PI e)) (Finite 180)
      in num_add e
           (num_mul e (Math_sin e (num_div e dLat (Finite 2)))
                      (Math_sin e (num_div e dLat (Finite 2))))
           (num_mul e
              (num_mul e
                 (num_mul e
                    (Math_cos e (num_div e (num_mul e lat1 (Math_PI e)) (Finite 180)))
                    (Math_cos e (num_div e (num_mul e lat2 (Math_PI e)) (Finite 180))))
                 (Math_sin e (num_div e dLon (Finite 2))))
              (Math_sin e (num_div e dLon (Finite 2)))))"


text \<open>
  Unary minus, and the laws of the engine the statements about the distance rest on.
  Those of \<open>sign_symmetric\<close> hold in IEEE 754 arithmetic, where rounding to nearest
  does not depend on the sign, with a sine that is odd: the product commutes, and
  exchanging the operands of a difference, or changing the sign of the first operand of
  a product or a quotient or of the argument of the sine, changes the sign of the result
  and nothing else. Those of \<open>exact_at_zero\<close> say which results are exact (differences
  of equal finite values, products with zero, zero divided, the functions at 0 and 1)
  and which are finite (latitudes in degrees times \<^verbatim>\<open>Math.PI\<close>, a finite value divided by
  180, the cosine of a finite value, the product of two values between -1 and 1). Those
  of \<open>propagates_NaN\<close> are how \<^verbatim>\<open>NaN\<close> arises from a haversine term above 1 and goes
  through to the result.
\<close>

fun negate :: "number \<Rightarrow> number" where
  "negate NaN = NaN"
| "negate PosInfinity = NegInfinity"
| "negate NegInfinity = PosInfinity"
| "negate (Finite x) = Finite (- x)"



definition propagates_NaN :: "engine \<Rightarrow> bool" where
  "propagates_NaN e \<longleftrightarrow>
     (\<forall>x. 1 < x \<longrightarrow> (\<exists>y. y < 0 \<and> num_sub e (Finite 1) (Finite x) = Finite y))
     \<and> (\<forall>y. y < 0 \<longrightarrow> Math_sqrt e (Finite y) = NaN)
     \<and> (\<forall>x. Math_atan2 e x NaN = NaN)
     \<and> (\<forall>x. num_mul e x NaN = NaN)"

text \<open>
  Arithmetic without rounding: on finite values the operations of the reals, at
  \<^verbatim>\<open>NaN\<close> and the infinities the results IEEE 754 gives, with zero taken as positive
  where its sign decides. Dividing a nonzero value by zero gives an infinity, the square
  root of a negative value is \<^verbatim>\<open>NaN\<close>.
\<close>

fun exact_add :: "number \<Rightarrow> number \<Rightarrow> number" where
  "exact_add (Finite x) (Finite y) = Finite (x + y)"
| "exact_add NaN y = NaN"
| "exact_add x NaN = NaN"
| "exact_add PosInfinity NegInfinity = NaN"
| "exact_add NegInfinity PosInfinity = NaN"
| "exact_add PosInfinity y = PosInfinity"
| "exact_add NegInfinity y = NegInfinity"
| "exact_add (Finite x) y = y"

definition sign_of :: "bool \<Rightarrow> number" where
  "sign_of positive = (if positive then PosInfinity else NegInfinity)"

fun exact_mul :: "number \<Rightarrow> number \<Rightarrow> number" where
  "exact_mul (Finite x) (Finite y) = Finite (x * y)"
| "exact_mul NaN y = NaN"
| "exact_mul x NaN = NaN"
| "exact_mul PosInfinity PosInfinity = PosInfinity"
| "exact_mul PosInfinity NegInfinity = NegInfinity"
| "exact_mul NegInfinity PosInfinity = NegInfinity"
| "exact_mul NegInfinity NegInfinity = PosInfinity"
| "exact_mul PosInfinity (Finite y) = (if y = 0 then NaN else sign_of (0 < y))"
| "exact_mul NegInfinity (Finite y) = (if y = 0 then NaN else sign_of (y < 0))"
| "exact_mul (Finite x) PosInfinity = (if x = 0 then NaN else sign_of (0 < x))"
| "exact_mul (Finite x) NegInfinity = (if x = 0 then NaN else sign_of (x < 0))"

fun exact_div :: "number \<Rightarrow> number \<Rightarrow> number" where
  "exact_div (Finite x) (Finite y) =
     (if y \<noteq> 0 then Finite (x / y) else if x = 0 then NaN else sign_of (0 < x))"
| "exact_div NaN y = NaN"
| "exact_div x NaN = NaN"
| "exact_div (Finite x) y = Finite 0"
| "exact_div PosInfinity (Finite y) = sign_of (0 \<le> y)"
| "exact_div NegInfinity (Finite y) = sign_of (y < 0)"
| "exact_div x y = NaN"

fun exact_sin :: "number \<Rightarrow> number" where
  "exact_sin (Finite x) = Finite (sin x)"
| "exact_sin x = NaN"

fun exact_cos :: "number \<Rightarrow> number" where
  "exact_cos (Finite x) = Finite (cos x)"
| "exact_cos x = NaN"

fun exact_sqrt :: "number \<Rightarrow> number" where
  "exact_sqrt (Finite x) = (if x < 0 then NaN else Finite (sqrt x))"
| "exact_sqrt PosInfinity = PosInfinity"
| "exact_sqrt x = NaN"

fun exact_atan2 :: "number \<Rightarrow> number \<Rightarrow> number" where
  "exact_atan2 (Finite y) (Finite x) = Finite (atan2 y x)"
| "exact_atan2 NaN x = NaN"
| "exact_atan2 y NaN = NaN"
| "exact_atan2 (Finite y) PosInfinity = Finite 0"
| "exact_atan2 (Finite y) NegInfinity = Finite (if 0 \<le> y then pi else - pi)"
| "exact_atan2 PosInfinity (Finite x) = Finite (pi / 2)"
| "exact_atan2 NegInfinity (Finite x) = Finite (- (pi / 2))"
| "exact_atan2 PosInfinity PosInfinity = Finite (pi / 4)"
| "exact_atan2 PosInfinity NegInfinity = Finite (3 * pi / 4)"
| "exact_atan2 NegInfinity PosInfinity = Finite (- (pi / 4))"
| "exact_atan2 NegInfinity NegInfinity = Finite (- (3 * pi / 4))"

definition exact :: engine where
  "exact =
     \<lparr>num_add = exact_add, num_sub = (\<lambda>x y. exact_add x (negate y)), num_mul = exact_mul,
      num_div = exact_div, Math_sin = exact_sin, Math_cos = exact_cos, Math_sqrt = exact_sqrt,
      Math_atan2 = exact_atan2, Math_PI = Finite pi\<rparr>"

section \<open>Type resolver (\<^verbatim>\<open>hexdb-api.ts\<close>)\<close>

record HexDBResponse =
  ICAOTypeCode :: "string option"
  Manufacturer :: "string option"
  ModeS :: "string option"
  OperatorFlagCode :: "string option"
  RegisteredOwners :: "string option"
  Registration :: "string option"
  Type :: "string option"

record AircraftPhoto =
  fullImageUrl :: string
  photo_thumbnailUrl :: string

text \<open>
  The module-level \<^verbatim>\<open>aircraftCache\<close> (a \<^verbatim>\<open>Map<string, HexDBResponse | null>\<close>): an
  identifier is absent (\<open>None\<close>), cached as not found (\<open>Some None\<close>) or cached with its
  record. \<open>requests\<close> logs, in order, the identifier of every request sent to the lookup
  provider. The provider is the environment's answer to the request for an identifier;
  the answer depends on the identifier only, not on when it is asked.
\<close>

record hexdb_state =
  aircraftCache :: "string \<rightharpoonup> HexDBResponse option"
  requests :: "string list"

definition getAircraftInfo ::
  "(string \<Rightarrow> HexDBResponse axios_result) \<Rightarrow> string \<Rightarrow> hexdb_state
     \<Rightarrow> HexDBResponse option \<times> hexdb_state" where
  "getAircraftInfo hexdb icao24 s =
     (case aircraftCache s icao24 of
        Some cached \<Rightarrow> (cached, s)
      | None \<Rightarrow>
          (let s1 = s\<lparr>requests := requests s @ [icao24]\<rparr>
           in case hexdb icao24 of
                Resolved status body \<Rightarrow>
                  if status = 200 \<and> body \<noteq> None
                  then (body, s1\<lparr>aircraftCache := (aircraftCache s1)(icao24 \<mapsto> body)\<rparr>)
                  else (None, s1\<lparr>aircraftCache := (aircraftCache s1)(icao24 \<mapsto> None)\<rparr>)
              | Rejected err \<Rightarrow>
                  (None, s1\<lparr>aircraftCache := (aircraftCache s1)(icao24 \<mapsto> None)\<rparr>)))"
  for icao24 :: string

text \<open>
  One batch of \<^verbatim>\<open>getMultipleAircraftInfo\<close>: \<^verbatim>\<open>batch.map\<close> starts every call of
  \<^verbatim>\<open>getAircraftInfo\<close> before any response is handled, so each call checks the cache as
  it is when the batch starts and each miss sends its own request; \<^verbatim>\<open>Promise.all\<close>
  then waits for all of them. \<open>settle\<close> is what a call that missed the cache stores
  and returns once its request has settled.
\<close>

definition settle :: "HexDBResponse axios_result \<Rightarrow> HexDBResponse option" where
  "settle reply =
     (case reply of
        Resolved status body \<Rightarrow> if status = 200 \<and> body \<noteq> None then body else None
      | Rejected err \<Rightarrow> None)"

definition promise_all_batch ::
  "(string \<Rightarrow> HexDBResponse axios_result) \<Rightarrow> string list \<Rightarrow> hexdb_state
     \<Rightarrow> (string \<times> HexDBResponse option) list \<times> hexdb_state" where
  "promise_all_batch hexdb batch s =
     (let missed = filter (\<lambda>icao24. aircraftCache s icao24 = None) batch;
          batchResults =
            map (\<lambda>icao24. (icao24, case aircraftCache s icao24 of
                                      Some cached \<Rightarrow> cached
                                    | None \<Rightarrow> settle (hexdb icao24))) batch
      in (batchResults,
          s\<lparr>requests := requests s @ missed,
            aircraftCache :=
              foldl (\<lambda>c icao24. c(icao24 \<mapsto> settle (hexdb icao24))) (aircraftCache s) missed\<rparr>))"

definition batchSize :: nat where
  "batchSize = 10"

text \<open>\<^verbatim>\<open>xs.slice(i, j)\<close> for \<open>0 \<le> i \<le> j\<close>.\<close>

definition slice :: "'a list \<Rightarrow> nat \<Rightarrow> nat \<Rightarrow> 'a list" where
  "slice xs i j = take (j - i) (drop i xs)"

text \<open>
  The \<^verbatim>\<open>for\<close> loop of \<^verbatim>\<open>getMultipleAircraftInfo\<close>; the pause between batches changes
  no state.
\<close>

function batch_loop ::
  "(string \<Rightarrow> HexDBResponse axios_result) \<Rightarrow> string list \<Rightarrow> nat
     \<Rightarrow> (string \<rightharpoonup> HexDBResponse option) \<Rightarrow> hexdb_state
     \<Rightarrow> (string \<rightharpoonup> HexDBResponse option) \<times> hexdb_state" where
  "batch_loop hexdb icao24List i results s =
     (if i < length icao24List then
        (let batch = slice icao24List i (i + batchSize);
             (batchResults, s') = promise_all_batch hexdb batch s;
             results' = foldl (\<lambda>m (icao24, info). m(icao24 \<mapsto> info)) results batchResults
         in batch_loop hexdb icao24List (i + batchSize) results' s')
      else (results, s))"
  by pat_completeness auto
termination
  by (relation "measure (\<lambda>(hexdb, icao24List, i, results, s). length icao24List - i)")
     (auto simp: batchSize_def)

declare batch_loop.simps [simp del]

definition getMultipleAircraftInfo ::
  "(string \<Rightarrow> HexDBResponse axios_result) \<Rightarrow> string list \<Rightarrow> hexdb_state
     \<Rightarrow> (string \<rightharpoonup> HexDBResponse option) \<times> hexdb_state" where
  "getMultipleAircraftInfo hexdb icao24List s = batch_loop hexdb icao24List 0 Map.empty s"

definition getAircraftPhoto :: "string \<Rightarrow> AircraftPhoto" where
  "getAircraftPhoto icao24 =
     \<lparr>fullImageUrl = ''https://hexdb.io/hex-image?hex='' @ icao24,
      photo_thumbnailUrl = ''https://hexdb.io/hex-image-thumb?hex='' @ icao24\<rparr>"
  for icao24 :: string

definition clearCache :: "hexdb_state \<Rightarrow> hexdb_state" where
  "clearCache s = s\<lparr>aircraftCache := Map.empty\<rparr>"

text \<open>
  The batches the loop forms, one after the other, and the lookups of the type resolver
  as operations on its state; \<^verbatim>\<open>clearCache\<close> is called nowhere in the repository.
\<close>

function batches :: "'a list \<Rightarrow> nat \<Rightarrow> 'a list list" where
  "batches xs i = (if i < length xs then slice xs i (i + batchSize) # batches xs (i + batchSize) else [])"
  by pat_completeness auto
termination
  by (relation "measure (\<lambda>(xs, i). length xs - i)") (auto simp: batchSize_def)

declare batches.simps [simp del]

definition batch_step ::
  "(string \<Rightarrow> HexDBResponse axios_result)
     \<Rightarrow> (string \<rightharpoonup> HexDBResponse option) \<times> hexdb_state \<Rightarrow> string list
     \<Rightarrow> (string \<rightharpoonup> HexDBResponse option) \<times> hexdb_state" where
  "batch_step hexdb rs batch =
     (let (batchResults, s') = promise_all_batch hexdb batch (snd rs)
      in (foldl (\<lambda>m (icao24, info). m(icao24 \<mapsto> info)) (fst rs) batchResults, s'))"

text \<open>The calls of a batch made one at a time instead, each awaited before the next.\<close>

fun await_each ::
  "(string \<Rightarrow> HexDBResponse axios_result) \<Rightarrow> string list \<Rightarrow> hexdb_state
     \<Rightarrow> (string \<times> HexDBResponse option) list \<times> hexdb_state" where
  "await_each hexdb [] s = ([], s)"
| "await_each hexdb (ident # idents) s =
     (let (info, s1) = getAircraftInfo hexdb ident s;
          (rest, s2) = await_each hexdb idents s1
      in ((ident, info) # rest, s2))"




text \<open>
  The batch lookup in the words of the specification: every identifier of the list, and
  no other, is mapped to what a lookup of that identifier alone returns.
\<close>

definition resolveBatch_spec ::
  "(string \<Rightarrow> HexDBResponse axios_result) \<Rightarrow> string list \<Rightarrow> hexdb_state
     \<Rightarrow> (string \<rightharpoonup> HexDBResponse option)" where
  "resolveBatch_spec hexdb identifiers s =
     (\<lambda>identifier. if identifier \<in> set identifiers
                    then Some (fst (getAircraftInfo hexdb identifier s)) else None)"

section \<open>Alert engine (\<^verbatim>\<open>use-flight-tracker.ts\<close>)\<close>

text \<open>
  \<^verbatim>\<open>FlightAlert\<close>; its fields \<^verbatim>\<open>id\<close>, \<^verbatim>\<open>latitude\<close> and \<^verbatim>\<open>longitude\<close> carry the prefix
  \<open>alert_\<close> here.
\<close>

record FlightAlert =
  alert_id :: string
  alert_latitude :: real
  alert_longitude :: real
  radius :: real
  aircraftModels :: "string list"
  active :: bool

record TrackedAircraft = Aircraft +
  matchedModel :: "string option"
  distance :: "real option"
  isNew :: "bool option"
  registration :: "string option"
  aircraftType :: "string option"
  photoUrl :: "string option"
  thumbnailUrl :: "string option"

text \<open>
  The notification sinks are the environment. An alert calls \<^verbatim>\<open>toast.success\<close> and
  then, when the browser has granted the permission, \<^verbatim>\<open>new Notification\<close>; both
  messages are built from the same data, kept here as a record instead of the
  formatted text. Either call returns (\<open>None\<close>) or throws.
\<close>

record alert_call =
  call_plane :: Aircraft
  call_info :: "HexDBResponse option"
  call_model_name :: string
  call_distance :: real

datatype sink_call = ToastSuccess alert_call | NewNotification alert_call

text \<open>What one poll cycle is given: the hook's arguments and the environment's answers.\<close>

record poll_env =
  alert :: "FlightAlert option"
  enabled :: bool
  states_all :: "BoundingBox \<Rightarrow> StateVector axios_result"
  toast_success :: "alert_call \<Rightarrow> thrown option"
  notification_granted :: bool
  new_Notification :: "alert_call \<Rightarrow> thrown option"
  now :: real

text \<open>
  The state that outlives a poll cycle: the hook's \<^verbatim>\<open>useState\<close> cells, its two
  \<^verbatim>\<open>useRef\<close> sets and the cache of the type resolver.
\<close>

record tracker =
  aircraft :: "TrackedAircraft list"
  isLoading :: bool
  error :: "string option"
  lastUpdate :: "real option"
  previousAircraftRef :: "string set"
  alertedAircraftRef :: "string set"
  hexdb_st :: hexdb_state

definition initial_tracker :: tracker where
  "initial_tracker =
     \<lparr>aircraft = [], isLoading = False, error = None, lastUpdate = None,
      previousAircraftRef = {}, alertedAircraftRef = {},
      hexdb_st = \<lparr>aircraftCache = Map.empty, requests = []\<rparr>\<rparr>"

text \<open>The state the callback of \<^verbatim>\<open>nearbyAircraft.map\<close> reads and writes.\<close>

record map_state =
  currentAircraftSet :: "string set"
  alerted :: "string set"
  calls :: "sink_call list"

text \<open>The callback's early \<^verbatim>\<open>return plane\<close>: no field of the extension is set.\<close>

definition untracked :: "Aircraft \<Rightarrow> TrackedAircraft" where
  "untracked plane =
     Aircraft.extend plane
       (TrackedAircraft.fields None None None None None None None)"

text \<open>\<^verbatim>\<open>a || b\<close> on optional strings: the empty string is falsy.\<close>

definition str_or :: "string option \<Rightarrow> string option \<Rightarrow> string option" where
  "str_or a b = (case a of Some s \<Rightarrow> if s = [] then b else Some s | None \<Rightarrow> b)"

text \<open>What reading \<^verbatim>\<open>.name\<close> of \<^verbatim>\<open>undefined\<close> throws.\<close>

definition undefined_name :: thrown where
  "undefined_name = ErrorObject ''Cannot read properties of undefined''"

definition track_plane ::
  "poll_env \<Rightarrow> FlightAlert \<Rightarrow> string set \<Rightarrow> (string \<rightharpoonup> HexDBResponse option)
     \<Rightarrow> Aircraft \<Rightarrow> map_state \<Rightarrow> (thrown + TrackedAircraft) \<times> map_state" where
  "track_plane env a previous aircraftInfoMap plane st =
     (if falsy_num (latitude plane) \<or> falsy_num (longitude plane) then (Inr (untracked plane), st)
      else
        (let st1 = st\<lparr>currentAircraftSet := insert (icao24 plane) (currentAircraftSet st)\<rparr>;
             distance = calculateDistance (alert_latitude a) (alert_longitude a)
                      (the (latitude plane)) (the (longitude plane));
             hexDBInfo = (case aircraftInfoMap (icao24 plane) of Some info \<Rightarrow> info | None \<Rightarrow> None);
             matchedModel = (case hexDBInfo of
                          Some info \<Rightarrow> mapTypeToModel (ICAOTypeCode info)
                        | None \<Rightarrow> None);
             isNew = (icao24 plane \<notin> previous);
             isMatchingModel = (case matchedModel of
                                  Some m \<Rightarrow> m \<in> set (aircraftModels a)
                                | None \<Rightarrow> False);
             photoData = getAircraftPhoto (icao24 plane);
             tracked =
               Aircraft.extend plane
                 (TrackedAircraft.fields
                    (if isMatchingModel then matchedModel else None)
                    (Some distance)
                    (Some isNew)
                    (case hexDBInfo of Some info \<Rightarrow> Registration info | None \<Rightarrow> None)
                    (case hexDBInfo of
                       Some info \<Rightarrow> str_or (Type info) (ICAOTypeCode info)
                     | None \<Rightarrow> None)
                    (Some (fullImageUrl photoData))
                    (Some (photo_thumbnailUrl photoData)))
         in if isMatchingModel \<and> isNew \<and> icao24 plane \<notin> alerted st1 then
              (let st2 = st1\<lparr>alerted := insert (icao24 plane) (alerted st1)\<rparr>
               in case map_of AIRCRAFT_MODELS (the matchedModel) of
                    None \<Rightarrow> (Inl undefined_name, st2)
                  | Some model \<Rightarrow>
                      (let call = \<lparr>call_plane = plane, call_info = hexDBInfo,
                                   call_model_name = name model, call_distance = distance\<rparr>;
                           st3 = st2\<lparr>calls := calls st2 @ [ToastSuccess call]\<rparr>
                       in case toast_success env call of
                            Some err \<Rightarrow> (Inl err, st3)
                          | None \<Rightarrow>
                              if notification_granted env then
                                (let st4 = st3\<lparr>calls := calls st3 @ [NewNotification call]\<rparr>
                                 in case new_Notification env call of
                                      Some err \<Rightarrow> (Inl err, st4)
                                    | None \<Rightarrow> (Inr tracked, st4))
                              else (Inr tracked, st3)))
            else (Inr tracked, st1)))"

text \<open>\<^verbatim>\<open>Array.prototype.map\<close> with a callback that may throw: the first throw ends it.\<close>

fun map_planes ::
  "(Aircraft \<Rightarrow> map_state \<Rightarrow> (thrown + TrackedAircraft) \<times> map_state) \<Rightarrow> Aircraft list
     \<Rightarrow> map_state \<Rightarrow> (thrown + TrackedAircraft list) \<times> map_state" where
  "map_planes f [] st = (Inr [], st)"
| "map_planes f (plane # planes) st =
     (case f plane st of
        (Inl err, st') \<Rightarrow> (Inl err, st')
      | (Inr t, st') \<Rightarrow>
          (case map_planes f planes st' of
             (Inl err, st'') \<Rightarrow> (Inl err, st'')
           | (Inr ts, st'') \<Rightarrow> (Inr (t # ts), st'')))"

text \<open>\<^verbatim>\<open>err instanceof Error ? err.message : 'Failed to fetch aircraft data'\<close>\<close>

definition error_message :: "thrown \<Rightarrow> string" where
  "error_message err =
     (case err of ErrorObject message \<Rightarrow> message | OtherValue \<Rightarrow> ''Failed to fetch aircraft data'')"

text \<open>
  One poll cycle: the new state and the sink calls made, in order. The two provider
  calls before the \<^verbatim>\<open>map\<close> catch their own failures and never throw; inside the
  \<^verbatim>\<open>map\<close> the set \<^verbatim>\<open>alertedAircraftRef.current\<close> is updated in place, so what was added
  before a throw stays, while \<^verbatim>\<open>previousAircraftRef.current\<close> is assigned only after
  the \<^verbatim>\<open>map\<close> has returned.
\<close>

definition fetchAircraft ::
  "(string \<Rightarrow> HexDBResponse axios_result) \<Rightarrow> poll_env \<Rightarrow> tracker
     \<Rightarrow> tracker \<times> sink_call list" where
  "fetchAircraft hexdb env w =
     (case alert env of
        None \<Rightarrow> (w, [])
      | Some a \<Rightarrow>
          if \<not> active a \<or> \<not> enabled env then (w, [])
          else
            (let w1 = w\<lparr>isLoading := True, error := None\<rparr>;
                 nearbyAircraft =
                   getAircraftInRadius (states_all env)
                     (alert_latitude a) (alert_longitude a) (radius a);
                 icao24List = map icao24 nearbyAircraft;
                 (aircraftInfoMap, h) = getMultipleAircraftInfo hexdb icao24List (hexdb_st w1);
                 w2 = w1\<lparr>hexdb_st := h\<rparr>;
                 (result, st) =
                   map_planes (track_plane env a (previousAircraftRef w2) aircraftInfoMap)
                     nearbyAircraft
                     \<lparr>currentAircraftSet = {}, alerted = alertedAircraftRef w2, calls = []\<rparr>
             in case result of
                  Inr trackedAircraft \<Rightarrow>
                    (w2\<lparr>aircraft := trackedAircraft,
                        lastUpdate := Some (now env),
                        alertedAircraftRef := alerted st \<inter> currentAircraftSet st,
                        previousAircraftRef := currentAircraftSet st,
                        isLoading := False\<rparr>,
                     calls st)
                | Inl err \<Rightarrow>
                    (w2\<lparr>alertedAircraftRef := alerted st,
                        error := Some (error_message err),
                        isLoading := False\<rparr>,
                     calls st)))"

text \<open>Poll cycles one after the other, each with its own environment.\<close>

fun polls ::
  "(string \<Rightarrow> HexDBResponse axios_result) \<Rightarrow> poll_env list \<Rightarrow> tracker
     \<Rightarrow> tracker \<times> sink_call list list" where
  "polls hexdb [] w = (w, [])"
| "polls hexdb (env # envs) w =
     (let (w', cs) = fetchAircraft hexdb env w;
          (w'', css) = polls hexdb envs w'
      in (w'', cs # css))"

declare polls.simps(2) [simp del]

text \<open>
  The vocabulary of the statements about poll cycles: the cycle runs (the guard at the top
  of \<^verbatim>\<open>fetchAircraft\<close> lets it through); the identifiers the radius query returns in
  it; the cycle runs to its end without a throw; the notifications (\<^verbatim>\<open>toast.success\<close>
  calls) for an identifier among sink calls; and an identifier whose resolved type
  is on the watch list.
\<close>

definition runs :: "poll_env \<Rightarrow> bool" where
  "runs env \<longleftrightarrow> (case alert env of None \<Rightarrow> False | Some a \<Rightarrow> active a \<and> enabled env)"

definition presence :: "poll_env \<Rightarrow> string set" where
  "presence env =
     (case alert env of
        None \<Rightarrow> {}
      | Some a \<Rightarrow>
          if active a \<and> enabled env
          then icao24 ` set (getAircraftInRadius (states_all env)
                               (alert_latitude a) (alert_longitude a) (radius a))
          else {})"


fun notified :: "sink_call \<Rightarrow> string option" where
  "notified (ToastSuccess c) = Some (icao24 (call_plane c))"
| "notified (NewNotification c) = None"

definition notifications :: "string \<Rightarrow> sink_call list \<Rightarrow> nat" where
  "notifications ident cs = length (filter (\<lambda>c. notified c = Some ident) cs)"

definition resolved ::
  "(string \<Rightarrow> HexDBResponse axios_result) \<Rightarrow> hexdb_state \<Rightarrow> string \<Rightarrow> HexDBResponse option" where
  "resolved hexdb s ident =
     (case aircraftCache s ident of Some cached \<Rightarrow> cached | None \<Rightarrow> settle (hexdb ident))"

definition matches ::
  "(string \<Rightarrow> HexDBResponse axios_result) \<Rightarrow> hexdb_state \<Rightarrow> poll_env \<Rightarrow> string \<Rightarrow> bool" where
  "matches hexdb s env ident \<longleftrightarrow>
     (case alert env of
        None \<Rightarrow> False
      | Some a \<Rightarrow>
          (case resolved hexdb s ident of
             None \<Rightarrow> False
           | Some info \<Rightarrow>
               (case mapTypeToModel (ICAOTypeCode info) of
                  None \<Rightarrow> False
                | Some m \<Rightarrow> m \<in> set (aircraftModels a))))"

text \<open>
  The callback's conditions by name: the aircraft has a position the callback accepts;
  its resolved type is on the watch list; the alert branch is taken. \<open>sink_result\<close>
  is what the environment answers to a sink call.
\<close>

definition valid_position :: "Aircraft \<Rightarrow> bool" where
  "valid_position plane \<longleftrightarrow> \<not> falsy_num (latitude plane) \<and> \<not> falsy_num (longitude plane)"

definition matching :: "FlightAlert \<Rightarrow> (string \<rightharpoonup> HexDBResponse option) \<Rightarrow> Aircraft \<Rightarrow> bool" where
  "matching a aircraftInfoMap plane \<longleftrightarrow>
     (case aircraftInfoMap (icao24 plane) of
        Some (Some info) \<Rightarrow>
          (case mapTypeToModel (ICAOTypeCode info) of
             Some m \<Rightarrow> m \<in> set (aircraftModels a)
           | None \<Rightarrow> False)
      | _ \<Rightarrow> False)"

definition fires ::
  "FlightAlert \<Rightarrow> string set \<Rightarrow> (string \<rightharpoonup> HexDBResponse option) \<Rightarrow> Aircraft \<Rightarrow> map_state \<Rightarrow> bool" where
  "fires a previous aircraftInfoMap plane st \<longleftrightarrow>
     valid_position plane \<and> matching a aircraftInfoMap plane
     \<and> icao24 plane \<notin> previous \<and> icao24 plane \<notin> alerted st"

fun sink_result :: "poll_env \<Rightarrow> sink_call \<Rightarrow> thrown option" where
  "sink_result env (ToastSuccess c) = toast_success env c"
| "sink_result env (NewNotification c) = new_Notification env c"

fun sink_plane :: "sink_call \<Rightarrow> Aircraft" where
  "sink_plane (ToastSuccess c) = call_plane c"
| "sink_plane (NewNotification c) = call_plane c"

text \<open>Whether the \<^verbatim>\<open>map\<close> has added an identifier to the alerted set, as a count.\<close>

definition newly :: "string \<Rightarrow> string set \<Rightarrow> string set \<Rightarrow> nat" where
  "newly ident before after = (if ident \<in> after \<and> ident \<notin> before then 1 else 0)"

text \<open>The \<^verbatim>\<open>nearbyAircraft.map\<close> of a cycle that runs for the alert \<open>a\<close>, from the state \<open>w\<close>.\<close>

definition poll_map ::
  "(string \<Rightarrow> HexDBResponse axios_result) \<Rightarrow> poll_env \<Rightarrow> FlightAlert \<Rightarrow> tracker
     \<Rightarrow> (thrown + TrackedAircraft list) \<times> map_state" where
  "poll_map hexdb env a w =
     (let nearbyAircraft =
            getAircraftInRadius (states_all env)
              (alert_latitude a) (alert_longitude a) (radius a);
          aircraftInfoMap =
            fst (getMultipleAircraftInfo hexdb (map icao24 nearbyAircraft) (hexdb_st w))
      in map_planes (track_plane env a (previousAircraftRef w) aircraftInfoMap)
           nearbyAircraft
           \<lparr>currentAircraftSet = {}, alerted = alertedAircraftRef w, calls = []\<rparr>)"

section \<open>Sample inputs\<close>

text \<open>
  A state vector as the feed sends it for an airborne aircraft, with the identifier,
  the longitude and the latitude left open; a feed that answers every query with the
  given rows; a lookup provider that knows one Boeing 737-800; a watch area of 50 km
  around 59 degrees north, 18 degrees east; and a browser whose \<^verbatim>\<open>Notification\<close>
  constructor returns, or throws as it does where only a service worker may show
  notifications.
\<close>

definition sample_state :: "string \<Rightarrow> real js \<Rightarrow> real js \<Rightarrow> state_vector" where
  "sample_state ident lon lat =
     \<lparr>state_0 = ident, state_1 = Value ''SAS123  '', state_2 = ''Sweden'',
      state_3 = Value 1700000000, state_4 = 1700000000, state_5 = lon, state_6 = lat,
      state_7 = Value 10000, state_8 = False, state_9 = Value 230, state_10 = Value 90,
      state_11 = Null, state_12 = Null, state_13 = Value 10100, state_14 = Value ''2000'',
      state_15 = False, state_16 = 0, state_17 = Undefined\<rparr>"

definition sample_feed :: "state_vector list \<Rightarrow> BoundingBox \<Rightarrow> StateVector axios_result" where
  "sample_feed rows boundingBox = Resolved 200 (Some \<lparr>time = 1700000000, states = Value rows\<rparr>)"

definition sample_hexdb :: "string \<Rightarrow> HexDBResponse axios_result" where
  "sample_hexdb ident =
     (if ident = ''4ac9e3''
      then Resolved 200 (Some \<lparr>ICAOTypeCode = Some ''B738'', Manufacturer = Some ''Boeing'',
             ModeS = Some ''4AC9E3'', OperatorFlagCode = Some ''SAS'',
             RegisteredOwners = Some ''SAS'', Registration = Some ''SE-RPE'',
             Type = Some ''737-800''\<rparr>)
      else Rejected (ErrorObject ''Request failed with status code 404''))"

definition sample_alert :: FlightAlert where
  "sample_alert =
     \<lparr>alert_id = ''alert-1'', alert_latitude = 59, alert_longitude = 18, radius = 50,
      aircraftModels = [''B737''], active = True\<rparr>"

definition returns :: "alert_call \<Rightarrow> thrown option" where
  "returns call = None"

definition illegal_constructor :: "alert_call \<Rightarrow> thrown option" where
  "illegal_constructor call = Some (ErrorObject ''Illegal constructor'')"

definition sample_env ::
  "state_vector list \<Rightarrow> (alert_call \<Rightarrow> thrown option) \<Rightarrow> poll_env" where
  "sample_env rows notify =
     \<lparr>alert = Some sample_alert, enabled = True, states_all = sample_feed rows,
      toast_success = returns, notification_granted = True,
      new_Notification = notify, now = 0\<rparr>"

definition row_near :: state_vector where
  "row_near = sample_state ''4ac9e3'' (Value 18) (Value 59)"

definition row_far :: state_vector where
  "row_far = sample_state ''3c6444'' (Value 18) (Value 60)"

definition row_meridian :: state_vector where
  "row_meridian = sample_state ''406a93'' (Value 0) (Value 51.5)"

definition empty_hexdb :: hexdb_state where
  "empty_hexdb = \<lparr>aircraftCache = Map.empty, requests = []\<rparr>"

definition twelve_identifiers :: "string list" where
  "twelve_identifiers =
     [''4ac9e3'', ''3c6444'', ''406a93'', ''a0b1c2'', ''a0b1c3'', ''a0b1c4'',
      ''a0b1c5'', ''a0b1c6'', ''a0b1c7'', ''a0b1c8'', ''a0b1c9'', ''a0b1ca'']"



definition poll_refused :: poll_env where
  "poll_refused = sample_env [row_near] illegal_constructor"


section \<open>The lookup tables agree\<close>

lemma in_keys_hd: "k \<in> fst ` set ((k, e) # ps)"
  by simp

lemma in_keys_tl: "k \<in> fst ` set ps \<Longrightarrow> k \<in> fst ` set (p # ps)"
  by auto

lemma typeMap_values_are_models:
  "list_all (\<lambda>kv. snd kv \<in> fst ` set AIRCRAFT_MODELS) typeMap"
  unfolding typeMap_def
  apply (simp only: list.pred_inject snd_conv)
  apply (intro conjI TrueI)
  apply (unfold AIRCRAFT_MODELS_def)
  apply (rule in_keys_hd | rule in_keys_tl)+
  done

lemma typeMap_value_is_model:
  assumes "map_of typeMap tc = Some m"
  shows "\<exists>model. map_of AIRCRAFT_MODELS m = Some model"
proof -
  from assms have mem: "(tc, m) \<in> set typeMap"
    by (rule map_of_SomeD)
  have "\<forall>kv\<in>set typeMap. snd kv \<in> fst ` set AIRCRAFT_MODELS"
    using typeMap_values_are_models by (simp only: list_all_iff)
  then have "snd (tc, m) \<in> fst ` set AIRCRAFT_MODELS"
    using mem by (rule bspec)
  then have "m \<in> fst ` set AIRCRAFT_MODELS"
    by (simp only: snd_conv)
  then have "map_of AIRCRAFT_MODELS m \<noteq> None"
    by (simp add: map_of_eq_None_iff)
  then show ?thesis
    by auto
qed

lemma mapTypeToModel_is_model:
  assumes "mapTypeToModel typeCode = Some m"
  shows "\<exists>model. map_of AIRCRAFT_MODELS m = Some model"
proof -
  from assms obtain tc where "map_of typeMap tc = Some m"
    by (auto simp: mapTypeToModel_def split: option.splits if_splits)
  then show ?thesis
    by (rule typeMap_value_is_model)
qed

lemma map_of_typeMap_B738: "map_of typeMap ''B738'' = Some ''B737''"
  by (simp add: typeMap_def)

lemma mapTypeToModel_B738: "mapTypeToModel (Some ''B738'') = Some ''B737''"
  by (simp add: mapTypeToModel_def map_of_typeMap_B738)

lemma AIRCRAFT_MODELS_B737:
  "map_of AIRCRAFT_MODELS ''B737'' =
     Some \<lparr>name = ''Boeing 737'',
           icao24Prefixes = [''B731'', ''B732'', ''B733'', ''B734'', ''B735'', ''B736'', ''B737'',
                             ''B738'', ''B739'', ''B37M'', ''B38M'', ''B39M'', ''B3XM'']\<rparr>"
  by (simp add: AIRCRAFT_MODELS_def)

section \<open>Great-circle distance\<close>

lemma calculateDistance_self: "calculateDistance lat lon lat lon = 0"
  by (simp add: calculateDistance_def atan2_def)

lemma sin_sq_swap:
  "sin ((x - y) * pi / 180 / 2) * sin ((x - y) * pi / 180 / 2)
     = sin ((y - x) * pi / 180 / 2) * sin ((y - x) * pi / 180 / 2)" for x y :: real
proof -
  have "x - y = - (y - x)"
    by simp
  then have "(x - y) * pi / 180 / 2 = - ((y - x) * pi / 180 / 2)"
    by (metis minus_divide_left mult_minus_left)
  then have "sin ((x - y) * pi / 180 / 2) = - sin ((y - x) * pi / 180 / 2)"
    by (metis sin_minus)
  then show ?thesis
    by simp
qed

text \<open>Over the reals the distance is symmetric, and zero from a point to itself.\<close>

lemma calculateDistance_real_symmetric:
  "calculateDistance lat1 lon1 lat2 lon2 = calculateDistance lat2 lon2 lat1 lon1
   \<and> calculateDistance lat1 lon1 lat1 lon1 = 0"
proof
  have lat: "sin ((lat2 - lat1) * pi / 180 / 2) * sin ((lat2 - lat1) * pi / 180 / 2)
      = sin ((lat1 - lat2) * pi / 180 / 2) * sin ((lat1 - lat2) * pi / 180 / 2)"
    by (rule sin_sq_swap)
  have lon: "sin ((lon2 - lon1) * pi / 180 / 2) * sin ((lon2 - lon1) * pi / 180 / 2)
      = sin ((lon1 - lon2) * pi / 180 / 2) * sin ((lon1 - lon2) * pi / 180 / 2)"
    by (rule sin_sq_swap)
  have a: "sin ((lat2 - lat1) * pi / 180 / 2) * sin ((lat2 - lat1) * pi / 180 / 2) +
        cos (lat1 * pi / 180) * cos (lat2 * pi / 180) *
        sin ((lon2 - lon1) * pi / 180 / 2) * sin ((lon2 - lon1) * pi / 180 / 2)
      = sin ((lat1 - lat2) * pi / 180 / 2) * sin ((lat1 - lat2) * pi / 180 / 2) +
        cos (lat2 * pi / 180) * cos (lat1 * pi / 180) *
        sin ((lon1 - lon2) * pi / 180 / 2) * sin ((lon1 - lon2) * pi / 180 / 2)"
    using lat lon by (simp add: mult.assoc mult.commute [of "cos (lat1 * pi / 180)"])
  show "calculateDistance lat1 lon1 lat2 lon2 = calculateDistance lat2 lon2 lat1 lon1"
    unfolding calculateDistance_def Let_def by (simp only: a)
next
  show "calculateDistance lat1 lon1 lat1 lon1 = 0"
    by (rule calculateDistance_self)
qed

lemma atan2_sin_cos:
  assumes "0 \<le> x" "x < pi / 2"
  shows "atan2 (sin x) (cos x) = x"
proof -
  have c: "0 < cos x"
    using assms by (intro cos_gt_zero_pi) auto
  have "arctan (sin x / cos x) = x"
    using assms arctan_tan [of x] by (simp add: tan_def)
  with c show ?thesis
    by (simp add: atan2_def)
qed

text \<open>Along a meridian the distance is the arc between the two latitudes.\<close>

lemma calculateDistance_meridian:
  assumes "lat1 \<le> lat2" "lat2 - lat1 < 180"
  shows "calculateDistance lat1 lon lat2 lon = 6371 * ((lat2 - lat1) * pi / 180)"
proof -
  define x where "x = (lat2 - lat1) * pi / 180 / 2"
  have x0: "0 \<le> x"
    using assms by (simp add: x_def)
  have "(lat2 - lat1) * pi < 180 * pi"
    using assms by simp
  then have x1: "x < pi / 2"
    by (simp add: x_def)
  have s: "0 \<le> sin x"
    using x0 x1 by (intro sin_ge_zero) auto
  have c: "0 \<le> cos x"
    using x0 x1 by (intro cos_ge_zero) auto
  have "1 - sin x * sin x = cos x * cos x"
    using sin_cos_squared_add [of x] by (simp add: power2_eq_square algebra_simps)
  then have "atan2 (sqrt (sin x * sin x)) (sqrt (1 - sin x * sin x)) = atan2 (sin x) (cos x)"
    using s c by simp
  also have "\<dots> = x"
    using x0 x1 by (rule atan2_sin_cos)
  finally have "2 * atan2 (sqrt (sin x * sin x)) (sqrt (1 - sin x * sin x)) = (lat2 - lat1) * pi / 180"
    by (simp add: x_def)
  then show ?thesis
    unfolding calculateDistance_def Let_def x_def by simp
qed

lemma one_degree_north: "50 < calculateDistance 59 18 60 18"
proof -
  have "calculateDistance 59 18 60 18 = 6371 * ((60 - 59) * pi / 180)"
    by (rule calculateDistance_meridian) simp_all
  moreover have "2 \<le> pi"
    by (rule pi_ge_two)
  ultimately show ?thesis
    by simp
qed

section \<open>Great-circle distance in the arithmetic of the engine\<close>















lemma calculateDistance_number_haversine:
  "calculateDistance_number e lat1 lon1 lat2 lon2 =
     num_mul e (Finite 6371)
       (num_mul e (Finite 2)
          (Math_atan2 e (Math_sqrt e (haversine e lat1 lon1 lat2 lon2))
             (Math_sqrt e (num_sub e (Finite 1) (haversine e lat1 lon1 lat2 lon2)))))"
  by (simp add: calculateDistance_number_def haversine_def Let_def)








text \<open>
  Where the engine computes a haversine term above 1, the function returns
  \<^verbatim>\<open>NaN\<close>: \<^verbatim>\<open>1 - a\<close> is negative, its square root is \<^verbatim>\<open>NaN\<close>, and \<^verbatim>\<open>NaN\<close>
  goes through \<^verbatim>\<open>Math.atan2\<close> and the two products. Arithmetic without rounding keeps
  the term of finite arguments between 0 and 1; rounding need not.
\<close>

lemma calculateDistance_number_NaN:
  assumes e: "propagates_NaN e"
    and a: "haversine e lat1 lon1 lat2 lon2 = Finite a" "1 < a"
  shows "calculateDistance_number e lat1 lon1 lat2 lon2 = NaN"
proof -
  from e a(2) obtain y where y: "y < 0" "num_sub e (Finite 1) (Finite a) = Finite y"
    unfolding propagates_NaN_def by blast
  from e y(1) have s: "Math_sqrt e (Finite y) = NaN"
    unfolding propagates_NaN_def by blast
  from e have n: "\<And>x. Math_atan2 e x NaN = NaN" "\<And>x. num_mul e x NaN = NaN"
    unfolding propagates_NaN_def by blast+
  show ?thesis
    by (simp add: calculateDistance_number_haversine a(1) y(2) s n)
qed

lemma propagates_NaN_exact: "propagates_NaN exact"
  unfolding propagates_NaN_def
proof (intro conjI allI impI)
  show "\<exists>y<0. num_sub exact (Finite 1) (Finite x) = Finite y" if "1 < x" for x :: real
    using that by (intro exI [of _ "1 - x"]) (simp add: exact_def)
  show "Math_sqrt exact (Finite y) = NaN" if "y < 0" for y :: real
    using that by (simp add: exact_def)
  show "Math_atan2 exact x NaN = NaN" for x
    by (cases x) (simp_all add: exact_def)
  show "num_mul exact x NaN = NaN" for x
    by (cases x) (simp_all add: exact_def)
qed





section \<open>Parsing state vectors\<close>

lemma num_or_undefined_None:
  "num_or_undefined x = None \<longleftrightarrow> x = Undefined \<or> x = Null \<or> x = Value 0"
  by (simp add: num_or_undefined_def split: js.splits)

lemma num_or_undefined_Some:
  "num_or_undefined x = Some r \<longleftrightarrow> x = Value r \<and> r \<noteq> 0"
  by (auto simp: num_or_undefined_def split: js.splits)

lemma parseAircraft_position:
  "longitude (parseAircraft state) = num_or_undefined (state_5 state)"
  "latitude (parseAircraft state) = num_or_undefined (state_6 state)"
  "icao24 (parseAircraft state) = state_0 state"
  by (simp_all add: parseAircraft_def)

text \<open>
  C5. On the prime meridian the feed reports longitude \<open>0\<close>; the parsed aircraft has
  no longitude, as if the field had been \<^verbatim>\<open>null\<close>. The same holds for every numeric
  field read with \<^verbatim>\<open>|| undefined\<close>.
\<close>

theorem parseAircraft_zero_longitude:
  "state_5 row_meridian = Value 0 \<and> longitude (parseAircraft row_meridian) = None"
  by (simp add: row_meridian_def sample_state_def parseAircraft_position num_or_undefined_def)

section \<open>Fetching the states of an area\<close>

text \<open>
  C8. When the request for the state vectors is rejected, whatever the thrown value,
  or the response has no body or no \<^verbatim>\<open>states\<close> field, \<^verbatim>\<open>getStatesInArea\<close> returns the
  empty list.
\<close>

theorem getStatesInArea_failure:
  "(transport boundingBox = Rejected err \<longrightarrow> getStatesInArea transport boundingBox = [])
   \<and> (transport boundingBox = Resolved status None \<longrightarrow> getStatesInArea transport boundingBox = [])
   \<and> (transport boundingBox = Resolved status (Some d) \<and> (states d = Undefined \<or> states d = Null)
        \<longrightarrow> getStatesInArea transport boundingBox = [])"
  by (auto simp: getStatesInArea_def)

theorem getStatesInArea_failure_witness:
  "getStatesInArea (\<lambda>b. Rejected (ErrorObject ''Network Error'')) (calculateBoundingBox 59 18 50) = []
   \<and> getStatesInArea (\<lambda>b. Resolved 200 None) (calculateBoundingBox 59 18 50) = []
   \<and> getStatesInArea (\<lambda>b. Resolved 200 (Some \<lparr>time = 0, states = Null\<rparr>))
        (calculateBoundingBox 59 18 50) = []"
  using
    getStatesInArea_failure [of "\<lambda>b. Rejected (ErrorObject ''Network Error'')"
      "calculateBoundingBox 59 18 50" "ErrorObject ''Network Error''"]
    getStatesInArea_failure [of "\<lambda>b. Resolved 200 None" "calculateBoundingBox 59 18 50" _ 200]
    getStatesInArea_failure [of "\<lambda>b. Resolved 200 (Some \<lparr>time = 0, states = Null\<rparr>)"
      "calculateBoundingBox 59 18 50" _ 200 "\<lparr>time = 0, states = Null\<rparr>"]
  by simp

section \<open>The radius query\<close>

lemma within_radius_valid:
  assumes "within_radius lat lon radiusKm plane"
  shows "\<exists>la lo. latitude plane = Some la \<and> longitude plane = Some lo \<and> la \<noteq> 0 \<and> lo \<noteq> 0
           \<and> calculateDistance lat lon la lo \<le> radiusKm"
  using assms
  by (auto simp: within_radius_def falsy_num_def Let_def split: option.splits if_splits)

lemma getAircraftInRadius_set:
  "set (getAircraftInRadius transport lat lon radiusKm)
     = {plane \<in> set (getStatesInArea transport (calculateBoundingBox lat lon radiusKm)).
          within_radius lat lon radiusKm plane}"
  by (simp add: getAircraftInRadius_def Let_def)

lemma getAircraftInRadius_within:
  "plane \<in> set (getAircraftInRadius transport lat lon radiusKm) \<Longrightarrow>
     within_radius lat lon radiusKm plane"
  by (simp add: getAircraftInRadius_set)

lemma getAircraftInRadius_sample_feed:
  "getAircraftInRadius (sample_feed rows) lat lon radiusKm
     = filter (within_radius lat lon radiusKm) (map parseAircraft rows)"
  by (simp add: getAircraftInRadius_def getStatesInArea_def sample_feed_def Let_def)

lemma within_radius_sample:
  "within_radius lat lon radiusKm (parseAircraft (sample_state ident (Value lo) (Value la)))
     \<longleftrightarrow> la \<noteq> 0 \<and> lo \<noteq> 0 \<and> calculateDistance lat lon la lo \<le> radiusKm"
  by (simp add: within_radius_def parseAircraft_position sample_state_def falsy_num_def
      num_or_undefined_def Let_def)

lemma within_radius_row_near: "within_radius 59 18 50 (parseAircraft row_near)"
  by (simp add: row_near_def within_radius_sample calculateDistance_self)

lemma within_radius_row_far: "\<not> within_radius 59 18 50 (parseAircraft row_far)"
  using one_degree_north by (simp add: row_far_def within_radius_sample)

text \<open>
  C2. Every aircraft the radius query returns has a latitude and a longitude, and its
  haversine distance to the centre is at most the radius. A state vector of the feed
  whose position is farther away than the radius is not in the result, whatever the
  bounding box let through.
\<close>

theorem getAircraftInRadius_sound:
  "(\<forall>plane \<in> set (getAircraftInRadius transport lat lon radiusKm).
      \<exists>la lo. latitude plane = Some la \<and> longitude plane = Some lo
        \<and> calculateDistance lat lon la lo \<le> radiusKm)
   \<and> (state_6 state = Value la' \<and> state_5 state = Value lo'
        \<and> radiusKm < calculateDistance lat lon la' lo'
      \<longrightarrow> parseAircraft state \<notin> set (getAircraftInRadius transport lat lon radiusKm))"
proof (intro conjI ballI impI)
  fix plane
  assume "plane \<in> set (getAircraftInRadius transport lat lon radiusKm)"
  then have "within_radius lat lon radiusKm plane"
    by (rule getAircraftInRadius_within)
  then show "\<exists>la lo. latitude plane = Some la \<and> longitude plane = Some lo
      \<and> calculateDistance lat lon la lo \<le> radiusKm"
    using within_radius_valid by blast
next
  assume far: "state_6 state = Value la' \<and> state_5 state = Value lo'
      \<and> radiusKm < calculateDistance lat lon la' lo'"
  show "parseAircraft state \<notin> set (getAircraftInRadius transport lat lon radiusKm)"
  proof
    assume "parseAircraft state \<in> set (getAircraftInRadius transport lat lon radiusKm)"
    then have "within_radius lat lon radiusKm (parseAircraft state)"
      by (rule getAircraftInRadius_within)
    then obtain la lo where
      "latitude (parseAircraft state) = Some la" "longitude (parseAircraft state) = Some lo"
      "calculateDistance lat lon la lo \<le> radiusKm"
      using within_radius_valid by blast
    with far show False
      by (simp add: parseAircraft_position num_or_undefined_Some)
  qed
qed

theorem getAircraftInRadius_sound_witness:
  "getAircraftInRadius (sample_feed [row_near, row_far]) 59 18 50 = [parseAircraft row_near]
   \<and> (\<exists>la lo. latitude (parseAircraft row_near) = Some la
         \<and> longitude (parseAircraft row_near) = Some lo
         \<and> calculateDistance 59 18 la lo \<le> 50)
   \<and> state_6 row_far = Value 60 \<and> state_5 row_far = Value 18
   \<and> 50 < calculateDistance 59 18 60 18
   \<and> parseAircraft row_far \<notin> set (getAircraftInRadius (sample_feed [row_near, row_far]) 59 18 50)"
proof -
  have result:
    "getAircraftInRadius (sample_feed [row_near, row_far]) 59 18 50 = [parseAircraft row_near]"
    by (simp add: getAircraftInRadius_sample_feed within_radius_row_near within_radius_row_far)
  have far: "state_6 row_far = Value 60 \<and> state_5 row_far = Value 18
      \<and> 50 < calculateDistance 59 18 60 18"
    using one_degree_north by (simp add: row_far_def sample_state_def)
  have near: "parseAircraft row_near \<in> set (getAircraftInRadius (sample_feed [row_near, row_far]) 59 18 50)"
    by (simp add: result)
  note sound = getAircraftInRadius_sound [of "sample_feed [row_near, row_far]" 59 18 50 row_far 60 18]
  from sound near have "\<exists>la lo. latitude (parseAircraft row_near) = Some la
      \<and> longitude (parseAircraft row_near) = Some lo \<and> calculateDistance 59 18 la lo \<le> 50"
    by blast
  moreover from sound far
  have "parseAircraft row_far \<notin> set (getAircraftInRadius (sample_feed [row_near, row_far]) 59 18 50)"
    by blast
  ultimately show ?thesis
    using result far by blast
qed

section \<open>The type resolver and its cache\<close>

lemma getAircraftInfo_resolved:
  "getAircraftInfo hexdb ident s =
     (resolved hexdb s ident,
      if aircraftCache s ident = None
      then s\<lparr>requests := requests s @ [ident],
             aircraftCache := (aircraftCache s)(ident \<mapsto> settle (hexdb ident))\<rparr>
      else s)"
  by (auto simp: getAircraftInfo_def resolved_def settle_def Let_def
      split: option.splits axios_result.splits)

lemma foldl_cache_update:
  "foldl (\<lambda>c k. c(k \<mapsto> f k)) c ks = (\<lambda>k. if k \<in> set ks then Some (f k) else c k)"
  by (induction ks arbitrary: c) (auto simp: fun_eq_iff)

lemma foldl_results_update:
  "foldl (\<lambda>m (k, info). m(k \<mapsto> info)) m (map (\<lambda>k. (k, f k)) ks)
     = (\<lambda>k. if k \<in> set ks then Some (f k) else m k)"
  by (induction ks arbitrary: m) (auto simp: fun_eq_iff)

lemma promise_all_batch_results:
  "fst (promise_all_batch hexdb batch s) = map (\<lambda>k. (k, resolved hexdb s k)) batch"
  by (simp add: promise_all_batch_def resolved_def Let_def)

lemma promise_all_batch_cache:
  "aircraftCache (snd (promise_all_batch hexdb batch s)) =
     (\<lambda>k. if k \<in> set batch \<and> aircraftCache s k = None then Some (settle (hexdb k))
          else aircraftCache s k)"
  by (auto simp: promise_all_batch_def Let_def foldl_cache_update fun_eq_iff)

lemma promise_all_batch_requests:
  "requests (snd (promise_all_batch hexdb batch s)) =
     requests s @ filter (\<lambda>k. aircraftCache s k = None) batch"
  by (simp add: promise_all_batch_def Let_def)

lemma promise_all_batch_resolved:
  "resolved hexdb (snd (promise_all_batch hexdb batch s)) = resolved hexdb s"
  by (auto simp: resolved_def promise_all_batch_cache fun_eq_iff split: option.splits)

lemma set_drop_slice:
  "i < length xs \<Longrightarrow> set (drop i xs) = set (slice xs i (i + batchSize)) \<union> set (drop (i + batchSize) xs)"
proof -
  have "drop i xs = take batchSize (drop i xs) @ drop batchSize (drop i xs)"
    by (simp only: append_take_drop_id)
  then have "set (drop i xs) = set (take batchSize (drop i xs)) \<union> set (drop batchSize (drop i xs))"
    by (metis set_append)
  then show ?thesis
    by (simp add: slice_def add.commute)
qed

lemma batch_loop_results:
  "fst (batch_loop hexdb xs i results s) =
     (\<lambda>k. if k \<in> set (drop i xs) then Some (resolved hexdb s k) else results k)"
proof (induction hexdb xs i results s rule: batch_loop.induct)
  case (1 hexdb xs i results s)
  show ?case
  proof (cases "i < length xs")
    case False
    then show ?thesis
      by (subst batch_loop.simps) simp
  next
    case True
    define batch where "batch = slice xs i (i + batchSize)"
    define s' where "s' = snd (promise_all_batch hexdb batch s)"
    define results' where
      "results' = foldl (\<lambda>m (k, info). m(k \<mapsto> info)) results (fst (promise_all_batch hexdb batch s))"
    have step: "batch_loop hexdb xs i results s = batch_loop hexdb xs (i + batchSize) results' s'"
      using True
      by (subst batch_loop.simps) (simp add: Let_def split_beta batch_def s'_def results'_def)
    have IH: "fst (batch_loop hexdb xs (i + batchSize) results' s') =
        (\<lambda>k. if k \<in> set (drop (i + batchSize) xs) then Some (resolved hexdb s' k) else results' k)"
      using "1.IH" [OF True, of batch "promise_all_batch hexdb batch s" "fst (promise_all_batch hexdb batch s)" s' results']
      by (simp add: batch_def s'_def results'_def)
    have r: "results' = (\<lambda>k. if k \<in> set batch then Some (resolved hexdb s k) else results k)"
      by (simp add: results'_def promise_all_batch_results foldl_results_update)
    have s: "resolved hexdb s' = resolved hexdb s"
      by (simp add: s'_def promise_all_batch_resolved)
    have "fst (batch_loop hexdb xs i results s) =
        (\<lambda>k. if k \<in> set (drop (i + batchSize) xs) then Some (resolved hexdb s' k) else results' k)"
      by (simp only: step IH)
    also have "\<dots> = (\<lambda>k. if k \<in> set (drop i xs) then Some (resolved hexdb s k) else results k)"
      using set_drop_slice [OF True] by (auto simp: r s batch_def fun_eq_iff)
    finally show ?thesis .
  qed
qed


lemma getMultipleAircraftInfo_results:
  "fst (getMultipleAircraftInfo hexdb xs s) =
     (\<lambda>k. if k \<in> set xs then Some (resolved hexdb s k) else None)"
  by (simp add: getMultipleAircraftInfo_def batch_loop_results)

lemma batch_loop_state:
  "resolved hexdb (snd (batch_loop hexdb xs i results s)) = resolved hexdb s
   \<and> (\<forall>k v. aircraftCache s k = Some v \<longrightarrow>
          aircraftCache (snd (batch_loop hexdb xs i results s)) k = Some v
          \<and> count_list (requests (snd (batch_loop hexdb xs i results s))) k
              = count_list (requests s) k)"
proof (induction hexdb xs i results s rule: batch_loop.induct)
  case (1 hexdb xs i results s)
  show ?case
  proof (cases "i < length xs")
    case False
    then show ?thesis
      by (subst (1 2 3) batch_loop.simps) simp
  next
    case True
    define batch where "batch = slice xs i (i + batchSize)"
    define s' where "s' = snd (promise_all_batch hexdb batch s)"
    define results' where
      "results' = foldl (\<lambda>m (k, info). m(k \<mapsto> info)) results (fst (promise_all_batch hexdb batch s))"
    have step: "batch_loop hexdb xs i results s = batch_loop hexdb xs (i + batchSize) results' s'"
      using True
      by (subst batch_loop.simps) (simp add: Let_def split_beta batch_def s'_def results'_def)
    have IH: "resolved hexdb (snd (batch_loop hexdb xs (i + batchSize) results' s')) = resolved hexdb s'
        \<and> (\<forall>k v. aircraftCache s' k = Some v \<longrightarrow>
          aircraftCache (snd (batch_loop hexdb xs (i + batchSize) results' s')) k = Some v
          \<and> count_list (requests (snd (batch_loop hexdb xs (i + batchSize) results' s'))) k
              = count_list (requests s') k)"
      using "1.IH" [OF True, of batch "promise_all_batch hexdb batch s" "fst (promise_all_batch hexdb batch s)" s' results']
      by (simp add: batch_def s'_def results'_def)
    have c: "aircraftCache s k = Some v \<Longrightarrow> aircraftCache s' k = Some v
        \<and> count_list (requests s') k = count_list (requests s) k" for k v
      by (simp add: s'_def promise_all_batch_cache promise_all_batch_requests count_list_0_iff)
    have s: "resolved hexdb s' = resolved hexdb s"
      by (simp add: s'_def promise_all_batch_resolved)
    show ?thesis
      unfolding step using IH c s by simp
  qed
qed


lemma batches_concat: "concat (batches xs i) = drop i xs"
proof (induction xs i rule: batches.induct)
  case (1 xs i)
  show ?case
  proof (cases "i < length xs")
    case True
    have "concat (batches xs i) = slice xs i (i + batchSize) @ drop (i + batchSize) xs"
      using True "1.IH" by (subst batches.simps) simp
    also have "\<dots> = take batchSize (drop i xs) @ drop batchSize (drop i xs)"
      by (simp add: slice_def add.commute)
    finally show ?thesis
      by (simp only: append_take_drop_id)
  next
    case False
    then show ?thesis
      by (subst batches.simps) simp
  qed
qed

lemma batches_length:
  "batch \<in> set (batches xs i) \<Longrightarrow> batch \<noteq> [] \<and> length batch \<le> batchSize"
proof (induction xs i rule: batches.induct)
  case (1 xs i)
  show ?case
  proof (cases "i < length xs")
    case True
    from "1.prems" have "batch \<in> set (slice xs i (i + batchSize) # batches xs (i + batchSize))"
      using True by (subst (asm) batches.simps) simp
    then show ?thesis
      using True "1.IH" by (auto simp: slice_def batchSize_def)
  next
    case False
    with "1.prems" show ?thesis
      by (subst (asm) batches.simps) simp
  qed
qed

lemma batches_full:
  "batch \<in> set (butlast (batches xs i)) \<Longrightarrow> length batch = batchSize"
proof (induction xs i rule: batches.induct)
  case (1 xs i)
  show ?case
  proof (cases "i < length xs")
    case True
    have unfold: "batches xs i = slice xs i (i + batchSize) # batches xs (i + batchSize)"
      using True by (subst batches.simps) simp
    show ?thesis
    proof (cases "batches xs (i + batchSize) = []")
      case True
      with "1.prems" unfold show ?thesis
        by simp
    next
      case False
      then have more: "i + batchSize < length xs"
        by (subst (asm) batches.simps) (simp split: if_splits)
      from "1.prems" unfold False
      have "batch = slice xs i (i + batchSize) \<or> batch \<in> set (butlast (batches xs (i + batchSize)))"
        by simp
      then show ?thesis
        using more "1.IH" [OF True] by (auto simp: slice_def)
    qed
  next
    case False
    with "1.prems" show ?thesis
      by (subst (asm) batches.simps) simp
  qed
qed

lemma batch_loop_batches:
  "batch_loop hexdb xs i results s = foldl (batch_step hexdb) (results, s) (batches xs i)"
proof (induction hexdb xs i results s rule: batch_loop.induct)
  case (1 hexdb xs i results s)
  show ?case
  proof (cases "i < length xs")
    case False
    then show ?thesis
      by (subst batch_loop.simps, subst batches.simps) simp
  next
    case True
    define batch where "batch = slice xs i (i + batchSize)"
    define s' where "s' = snd (promise_all_batch hexdb batch s)"
    define results' where
      "results' = foldl (\<lambda>m (k, info). m(k \<mapsto> info)) results (fst (promise_all_batch hexdb batch s))"
    have step: "batch_loop hexdb xs i results s = batch_loop hexdb xs (i + batchSize) results' s'"
      using True
      by (subst batch_loop.simps) (simp add: Let_def split_beta batch_def s'_def results'_def)
    have IH: "batch_loop hexdb xs (i + batchSize) results' s'
        = foldl (batch_step hexdb) (results', s') (batches xs (i + batchSize))"
      using "1.IH" [OF True, of batch "promise_all_batch hexdb batch s" "fst (promise_all_batch hexdb batch s)" s' results']
      by (simp add: batch_def s'_def results'_def)
    have b: "batch_step hexdb (results, s) batch = (results', s')"
      by (simp add: batch_step_def split_beta results'_def s'_def)
    have "batches xs i = batch # batches xs (i + batchSize)"
      using True by (subst batches.simps) (simp add: batch_def)
    then show ?thesis
      by (simp add: step IH b)
  qed
qed




















text \<open>
  C7. The batch lookup returns the map of the specification: its keys are the
  identifiers of the list, and each is mapped to what a lookup of that identifier alone
  returns, in the state before the batch lookup as well as in the state after it. The
  loop works through the list in consecutive batches, all of ten identifiers but
  possibly the last, which is shorter and not empty.
\<close>

theorem getMultipleAircraftInfo_refines:
  "fst (getMultipleAircraftInfo hexdb identifiers s) = resolveBatch_spec hexdb identifiers s
   \<and> dom (fst (getMultipleAircraftInfo hexdb identifiers s)) = set identifiers
   \<and> fst (getMultipleAircraftInfo hexdb identifiers s)
       = resolveBatch_spec hexdb identifiers (snd (getMultipleAircraftInfo hexdb identifiers s))
   \<and> getMultipleAircraftInfo hexdb identifiers s
       = foldl (batch_step hexdb) (Map.empty, s) (batches identifiers 0)
   \<and> concat (batches identifiers 0) = identifiers
   \<and> (\<forall>batch \<in> set (batches identifiers 0). batch \<noteq> [] \<and> length batch \<le> 10)
   \<and> (\<forall>batch \<in> set (butlast (batches identifiers 0)). length batch = 10)"
proof (intro conjI ballI)
  show "fst (getMultipleAircraftInfo hexdb identifiers s) = resolveBatch_spec hexdb identifiers s"
    by (simp add: getMultipleAircraftInfo_results resolveBatch_spec_def getAircraftInfo_resolved
        fun_eq_iff)
  show "dom (fst (getMultipleAircraftInfo hexdb identifiers s)) = set identifiers"
    by (auto simp: getMultipleAircraftInfo_results dom_def)
  have "resolved hexdb (snd (getMultipleAircraftInfo hexdb identifiers s)) = resolved hexdb s"
    using batch_loop_state [of hexdb identifiers 0 Map.empty s]
    by (simp add: getMultipleAircraftInfo_def)
  then show "fst (getMultipleAircraftInfo hexdb identifiers s)
       = resolveBatch_spec hexdb identifiers (snd (getMultipleAircraftInfo hexdb identifiers s))"
    by (simp add: getMultipleAircraftInfo_results resolveBatch_spec_def getAircraftInfo_resolved
        fun_eq_iff)
  show "getMultipleAircraftInfo hexdb identifiers s
       = foldl (batch_step hexdb) (Map.empty, s) (batches identifiers 0)"
    by (simp add: getMultipleAircraftInfo_def batch_loop_batches)
  show "concat (batches identifiers 0) = identifiers"
    by (simp add: batches_concat)
next
  fix batch
  assume "batch \<in> set (batches identifiers 0)"
  then show "batch \<noteq> []" "length batch \<le> 10"
    using batches_length [of batch identifiers 0] by (simp_all add: batchSize_def)
next
  fix batch
  assume "batch \<in> set (butlast (batches identifiers 0))"
  then show "length batch = 10"
    using batches_full [of batch identifiers 0] by (simp add: batchSize_def)
qed





lemma batches_twelve:
  "batches twelve_identifiers 0 = [take 10 twelve_identifiers, drop 10 twelve_identifiers]"
  by (simp add: batches.simps twelve_identifiers_def slice_def batchSize_def)

theorem getMultipleAircraftInfo_refines_witness:
  "batches twelve_identifiers 0 = [take 10 twelve_identifiers, drop 10 twelve_identifiers]
   \<and> length (take 10 twelve_identifiers) = 10
   \<and> length (drop 10 twelve_identifiers) \<le> 10
   \<and> dom (fst (getMultipleAircraftInfo sample_hexdb twelve_identifiers empty_hexdb))
       = set twelve_identifiers
   \<and> fst (getMultipleAircraftInfo sample_hexdb twelve_identifiers empty_hexdb) ''4ac9e3''
       = Some (fst (getAircraftInfo sample_hexdb ''4ac9e3'' empty_hexdb))"
proof -
  note inst = getMultipleAircraftInfo_refines [of sample_hexdb twelve_identifiers empty_hexdb]
  have first: "take 10 twelve_identifiers \<in> set (butlast (batches twelve_identifiers 0))"
    by (simp add: batches_twelve)
  have last: "drop 10 twelve_identifiers \<in> set (batches twelve_identifiers 0)"
    by (simp add: batches_twelve)
  have mem: "''4ac9e3'' \<in> set twelve_identifiers"
    by (simp add: twelve_identifiers_def)
  from inst first have "length (take 10 twelve_identifiers) = 10"
    by blast
  moreover from inst last have "length (drop 10 twelve_identifiers) \<le> 10"
    by blast
  moreover from inst
  have "dom (fst (getMultipleAircraftInfo sample_hexdb twelve_identifiers empty_hexdb))
      = set twelve_identifiers"
    by blast
  moreover from inst
  have "fst (getMultipleAircraftInfo sample_hexdb twelve_identifiers empty_hexdb)
      = resolveBatch_spec sample_hexdb twelve_identifiers empty_hexdb"
    by (rule conjunct1)
  then have "fst (getMultipleAircraftInfo sample_hexdb twelve_identifiers empty_hexdb) ''4ac9e3''
      = Some (fst (getAircraftInfo sample_hexdb ''4ac9e3'' empty_hexdb))"
    using mem by (simp only: resolveBatch_spec_def if_True)
  ultimately show ?thesis
    using batches_twelve by blast
qed

section \<open>A batch and its calls made one at a time\<close>

lemma getAircraftInfo_state:
  "aircraftCache (snd (getAircraftInfo hexdb ident s)) =
     (\<lambda>x. if x = ident \<and> aircraftCache s x = None then Some (settle (hexdb x)) else aircraftCache s x)"
  "requests (snd (getAircraftInfo hexdb ident s)) =
     requests s @ (if aircraftCache s ident = None then [ident] else [])"
  "resolved hexdb (snd (getAircraftInfo hexdb ident s)) = resolved hexdb s"
  by (auto simp: getAircraftInfo_resolved resolved_def fun_eq_iff split: option.splits)

lemma await_each_results:
  "fst (await_each hexdb idents s) = map (\<lambda>k. (k, resolved hexdb s k)) idents"
proof (induction idents arbitrary: s)
  case Nil
  then show ?case by simp
next
  case (Cons ident idents)
  have "fst (await_each hexdb (ident # idents) s) =
      (ident, fst (getAircraftInfo hexdb ident s))
        # fst (await_each hexdb idents (snd (getAircraftInfo hexdb ident s)))"
    by (simp add: split_beta)
  then show ?case
    by (simp add: Cons.IH getAircraftInfo_state(3)) (simp add: getAircraftInfo_resolved)
qed

lemma await_each_cache:
  "aircraftCache (snd (await_each hexdb idents s)) =
     (\<lambda>x. if x \<in> set idents \<and> aircraftCache s x = None then Some (settle (hexdb x))
          else aircraftCache s x)"
proof (induction idents arbitrary: s)
  case Nil
  then show ?case by simp
next
  case (Cons ident idents)
  have "snd (await_each hexdb (ident # idents) s) =
      snd (await_each hexdb idents (snd (getAircraftInfo hexdb ident s)))"
    by (simp add: split_beta)
  then show ?case
    by (auto simp: Cons.IH getAircraftInfo_state(1) fun_eq_iff)
qed

lemma await_each_requests:
  "distinct idents \<Longrightarrow>
     requests (snd (await_each hexdb idents s)) =
       requests s @ filter (\<lambda>k. aircraftCache s k = None) idents"
proof (induction idents arbitrary: s)
  case Nil
  then show ?case by simp
next
  case (Cons ident idents)
  define s1 where "s1 = snd (getAircraftInfo hexdb ident s)"
  have step: "snd (await_each hexdb (ident # idents) s) = snd (await_each hexdb idents s1)"
    by (simp add: split_beta s1_def)
  from Cons.prems have d: "ident \<notin> set idents" "distinct idents"
    by simp_all
  have same: "filter (\<lambda>k. aircraftCache s1 k = None) idents
      = filter (\<lambda>k. aircraftCache s k = None) idents"
    using d(1) by (intro filter_cong) (auto simp: s1_def getAircraftInfo_state(1))
  have "requests (snd (await_each hexdb (ident # idents) s))
      = requests s1 @ filter (\<lambda>k. aircraftCache s1 k = None) idents"
    unfolding step by (rule Cons.IH [OF d(2)])
  also have "\<dots> = requests s @ (if aircraftCache s ident = None then [ident] else [])
      @ filter (\<lambda>k. aircraftCache s k = None) idents"
    unfolding same by (simp add: s1_def getAircraftInfo_state(2))
  finally show ?case
    by simp
qed

text \<open>
  A batch returns and caches what its calls would, made one at a time; when no
  identifier occurs twice in it, it also sends the same requests.
\<close>

lemma promise_all_batch_await_each:
  "fst (promise_all_batch hexdb batch s) = fst (await_each hexdb batch s)"
  "aircraftCache (snd (promise_all_batch hexdb batch s)) = aircraftCache (snd (await_each hexdb batch s))"
  "distinct batch \<Longrightarrow>
     requests (snd (promise_all_batch hexdb batch s)) = requests (snd (await_each hexdb batch s))"
  by (simp_all add: promise_all_batch_results promise_all_batch_cache promise_all_batch_requests
      await_each_results await_each_cache await_each_requests)

section \<open>The callback of the poll cycle\<close>

lemma notifications_append:
  "notifications ident (xs @ ys) = notifications ident xs + notifications ident ys"
  by (simp add: notifications_def)

lemma notifications_Nil: "notifications ident [] = 0"
  by (simp add: notifications_def)

lemma track_plane_quiet:
  assumes "\<not> fires a previous aircraftInfoMap plane st"
  shows "\<exists>t. track_plane env a previous aircraftInfoMap plane st =
     (Inr t, st\<lparr>currentAircraftSet :=
                  (if valid_position plane then insert (icao24 plane) (currentAircraftSet st)
                   else currentAircraftSet st)\<rparr>)"
  using assms
  by (auto simp: track_plane_def fires_def valid_position_def matching_def Let_def
      split: option.splits)

lemma track_plane_fires:
  assumes "fires a previous aircraftInfoMap plane st"
  shows "\<exists>res new. track_plane env a previous aircraftInfoMap plane st =
     (res, st\<lparr>currentAircraftSet := insert (icao24 plane) (currentAircraftSet st),
              alerted := insert (icao24 plane) (alerted st),
              calls := calls st @ new\<rparr>)
     \<and> (\<forall>ident. notifications ident new = (if ident = icao24 plane then 1 else 0))
     \<and> (\<forall>err. res = Inl err \<longrightarrow> new \<noteq> [] \<and> sink_result env (last new) = Some err)"
proof -
  from assms obtain info m where
    info: "aircraftInfoMap (icao24 plane) = Some (Some info)"
    and m: "mapTypeToModel (ICAOTypeCode info) = Some m" "m \<in> set (aircraftModels a)"
    by (auto simp: fires_def matching_def split: option.splits)
  from m(1) obtain model where model: "map_of AIRCRAFT_MODELS m = Some model"
    using mapTypeToModel_is_model by blast
  from assms have v: "\<not> falsy_num (latitude plane)" "\<not> falsy_num (longitude plane)"
    "icao24 plane \<notin> previous" "icao24 plane \<notin> alerted st"
    by (simp_all add: fires_def valid_position_def)
  show ?thesis
    using info m model v
    by (auto simp: track_plane_def Let_def notifications_def split: option.splits)
qed


lemma track_plane_step:
  "\<exists>res st' new.
     track_plane env a previous aircraftInfoMap plane st = (res, st')
     \<and> currentAircraftSet st' =
        (if valid_position plane then insert (icao24 plane) (currentAircraftSet st)
         else currentAircraftSet st)
     \<and> alerted st' =
        (if fires a previous aircraftInfoMap plane st then insert (icao24 plane) (alerted st)
         else alerted st)
     \<and> calls st' = calls st @ new
     \<and> (\<forall>ident. notifications ident new =
          (if fires a previous aircraftInfoMap plane st \<and> ident = icao24 plane then 1 else 0))
     \<and> (\<forall>err. res = Inl err \<longrightarrow>
          fires a previous aircraftInfoMap plane st \<and> new \<noteq> [] \<and> sink_result env (last new) = Some err)"
proof (cases "fires a previous aircraftInfoMap plane st")
  case True
  from track_plane_fires [OF True, of env] obtain res new where
    eq: "track_plane env a previous aircraftInfoMap plane st =
     (res, st\<lparr>currentAircraftSet := insert (icao24 plane) (currentAircraftSet st),
              alerted := insert (icao24 plane) (alerted st),
              calls := calls st @ new\<rparr>)"
    and n: "\<forall>ident. notifications ident new = (if ident = icao24 plane then 1 else 0)"
    and e: "\<forall>err. res = Inl err \<longrightarrow> new \<noteq> [] \<and> sink_result env (last new) = Some err"
    by blast
  from True have "valid_position plane"
    by (simp add: fires_def)
  with True eq n e show ?thesis
    by simp
next
  case False
  from track_plane_quiet [OF False, of env] obtain t where
    eq: "track_plane env a previous aircraftInfoMap plane st =
     (Inr t, st\<lparr>currentAircraftSet :=
                  (if valid_position plane then insert (icao24 plane) (currentAircraftSet st)
                   else currentAircraftSet st)\<rparr>)"
    by blast
  have "notifications ident [] = 0" for ident
    by (rule notifications_Nil)
  with False eq show ?thesis
    by simp
qed

lemma map_planes_inv:
  assumes "map_planes (track_plane env a previous aircraftInfoMap) planes st = (res, st')"
  shows "alerted st \<subseteq> alerted st'
    \<and> alerted st' \<subseteq> alerted st \<union> icao24 ` {p \<in> set planes. valid_position p}
    \<and> alerted st' - alerted st \<subseteq> currentAircraftSet st'
    \<and> currentAircraftSet st \<subseteq> currentAircraftSet st'
    \<and> currentAircraftSet st' \<subseteq> currentAircraftSet st \<union> icao24 ` {p \<in> set planes. valid_position p}
    \<and> (\<exists>new. calls st' = calls st @ new
          \<and> (\<forall>ident. notifications ident new = newly ident (alerted st) (alerted st'))
          \<and> (\<forall>err. res = Inl err \<longrightarrow> new \<noteq> [] \<and> sink_result env (last new) = Some err))
    \<and> ((\<exists>ts. res = Inr ts) \<longrightarrow>
          currentAircraftSet st' = currentAircraftSet st \<union> icao24 ` {p \<in> set planes. valid_position p}
          \<and> (\<forall>p \<in> set planes. valid_position p \<and> matching a aircraftInfoMap p
                \<and> icao24 p \<notin> previous \<longrightarrow> icao24 p \<in> alerted st'))"
  using assms
proof (induction planes arbitrary: st res st')
  case Nil
  then have "res = Inr []" "st' = st"
    by simp_all
  then show ?case
    by (simp add: notifications_Nil newly_def)
next
  case (Cons plane planes)
  obtain r1 st1 new1 where
    eq1: "track_plane env a previous aircraftInfoMap plane st = (r1, st1)"
    and cur1: "currentAircraftSet st1 =
       (if valid_position plane then insert (icao24 plane) (currentAircraftSet st)
        else currentAircraftSet st)"
    and al1: "alerted st1 =
       (if fires a previous aircraftInfoMap plane st then insert (icao24 plane) (alerted st)
        else alerted st)"
    and calls1: "calls st1 = calls st @ new1"
    and n1: "\<And>ident. notifications ident new1 =
       (if fires a previous aircraftInfoMap plane st \<and> ident = icao24 plane then 1 else 0)"
    and e1: "\<And>err. r1 = Inl err \<Longrightarrow>
       fires a previous aircraftInfoMap plane st \<and> new1 \<noteq> [] \<and> sink_result env (last new1) = Some err"
    using track_plane_step [of env a previous aircraftInfoMap plane st] by blast
  have f1: "fires a previous aircraftInfoMap plane st \<Longrightarrow>
      valid_position plane \<and> icao24 plane \<notin> alerted st"
    by (simp add: fires_def)
  have n1': "notifications ident new1 = newly ident (alerted st) (alerted st1)" for ident
    using n1 [of ident] al1 f1 by (auto simp: newly_def)
  have a01: "alerted st \<subseteq> alerted st1"
    using al1 by auto
  have a10: "alerted st1 \<subseteq> alerted st \<union> icao24 ` {p \<in> set (plane # planes). valid_position p}"
    using al1 f1 by auto
  have d1: "alerted st1 - alerted st \<subseteq> currentAircraftSet st1"
    using al1 cur1 f1 by auto
  have c01: "currentAircraftSet st \<subseteq> currentAircraftSet st1"
    using cur1 by auto
  have c10: "currentAircraftSet st1
      = currentAircraftSet st \<union> icao24 ` {p \<in> set [plane]. valid_position p}"
    using cur1 by auto
  show ?case
  proof (cases r1)
    case (Inl err)
    with Cons.prems eq1 have res: "res = Inl err" "st' = st1"
      by simp_all
    from e1 [OF Inl] have last: "new1 \<noteq> []" "sink_result env (last new1) = Some err"
      by simp_all
    have "\<exists>new. calls st' = calls st @ new
          \<and> (\<forall>ident. notifications ident new = newly ident (alerted st) (alerted st'))
          \<and> (\<forall>err. res = Inl err \<longrightarrow> new \<noteq> [] \<and> sink_result env (last new) = Some err)"
      using calls1 last res n1' by auto
    moreover have "\<not> (\<exists>ts. res = Inr ts)"
      using res by simp
    moreover have "currentAircraftSet st1
        \<subseteq> currentAircraftSet st \<union> icao24 ` {p \<in> set (plane # planes). valid_position p}"
      using c10 by auto
    ultimately show ?thesis
      using a01 a10 d1 c01 unfolding res(2) by blast
  next
    case (Inr t)
    obtain r2 st2 where eq2:
      "map_planes (track_plane env a previous aircraftInfoMap) planes st1 = (r2, st2)"
      by (cases "map_planes (track_plane env a previous aircraftInfoMap) planes st1")
    have "map_planes (track_plane env a previous aircraftInfoMap) (plane # planes) st =
        (case r2 of Inl err \<Rightarrow> Inl err | Inr ts \<Rightarrow> Inr (t # ts), st2)"
      using eq1 Inr eq2 by (cases r2) simp_all
    with Cons.prems have st': "st' = st2"
      and res: "res = (case r2 of Inl err \<Rightarrow> Inl err | Inr ts \<Rightarrow> Inr (t # ts))"
      by simp_all
    note IH = Cons.IH [OF eq2]
    have a12: "alerted st1 \<subseteq> alerted st2"
      using IH by (rule conjunct1)
    have a21: "alerted st2 \<subseteq> alerted st1 \<union> icao24 ` {p \<in> set planes. valid_position p}"
      using IH [THEN conjunct2] by (rule conjunct1)
    have d2: "alerted st2 - alerted st1 \<subseteq> currentAircraftSet st2"
      using IH [THEN conjunct2, THEN conjunct2] by (rule conjunct1)
    have c12: "currentAircraftSet st1 \<subseteq> currentAircraftSet st2"
      using IH [THEN conjunct2, THEN conjunct2, THEN conjunct2] by (rule conjunct1)
    have c21: "currentAircraftSet st2
        \<subseteq> currentAircraftSet st1 \<union> icao24 ` {p \<in> set planes. valid_position p}"
      using IH [THEN conjunct2, THEN conjunct2, THEN conjunct2, THEN conjunct2] by (rule conjunct1)
    have "\<exists>new. calls st2 = calls st1 @ new
          \<and> (\<forall>ident. notifications ident new = newly ident (alerted st1) (alerted st2))
          \<and> (\<forall>err. r2 = Inl err \<longrightarrow> new \<noteq> [] \<and> sink_result env (last new) = Some err)"
      using IH [THEN conjunct2, THEN conjunct2, THEN conjunct2, THEN conjunct2, THEN conjunct2]
      by (rule conjunct1)
    then obtain new2 where
      calls2: "calls st2 = calls st1 @ new2"
      and n2: "\<And>ident. notifications ident new2 = newly ident (alerted st1) (alerted st2)"
      and e2: "\<And>err. r2 = Inl err \<Longrightarrow> new2 \<noteq> [] \<and> sink_result env (last new2) = Some err"
      by blast
    have whole2: "(\<exists>ts. r2 = Inr ts) \<longrightarrow>
          currentAircraftSet st2 = currentAircraftSet st1 \<union> icao24 ` {p \<in> set planes. valid_position p}
          \<and> (\<forall>p \<in> set planes. valid_position p \<and> matching a aircraftInfoMap p
                \<and> icao24 p \<notin> previous \<longrightarrow> icao24 p \<in> alerted st2)"
      using IH [THEN conjunct2, THEN conjunct2, THEN conjunct2, THEN conjunct2, THEN conjunct2]
      by (rule conjunct2)
    have n: "notifications ident (new1 @ new2) = newly ident (alerted st) (alerted st2)" for ident
      using n1' [of ident] n2 [of ident] a01 a12
      by (auto simp: notifications_append newly_def)
    have e: "res = Inl err \<Longrightarrow>
        new1 @ new2 \<noteq> [] \<and> sink_result env (last (new1 @ new2)) = Some err" for err
      using e2 [of err] res by (cases r2) simp_all
    have part: "\<exists>new. calls st' = calls st @ new
          \<and> (\<forall>ident. notifications ident new = newly ident (alerted st) (alerted st'))
          \<and> (\<forall>err. res = Inl err \<longrightarrow> new \<noteq> [] \<and> sink_result env (last new) = Some err)"
    proof (intro exI conjI allI impI)
      show "calls st' = calls st @ (new1 @ new2)"
        using calls1 calls2 st' by simp
      show "notifications ident (new1 @ new2) = newly ident (alerted st) (alerted st')" for ident
        using n [of ident] st' by simp
      show "new1 @ new2 \<noteq> []" if "res = Inl err" for err
        using e [OF that] by simp
      show "sink_result env (last (new1 @ new2)) = Some err" if "res = Inl err" for err
        using e [OF that] by simp
    qed
    have s1: "alerted st \<subseteq> alerted st'"
      using a01 a12 st' by blast
    have s2: "alerted st' \<subseteq> alerted st \<union> icao24 ` {p \<in> set (plane # planes). valid_position p}"
      using a10 a21 st' by auto
    have s3: "alerted st' - alerted st \<subseteq> currentAircraftSet st'"
      using d1 d2 c12 st' by blast
    have s4: "currentAircraftSet st \<subseteq> currentAircraftSet st'"
      using c01 c12 st' by blast
    have s5: "currentAircraftSet st'
        \<subseteq> currentAircraftSet st \<union> icao24 ` {p \<in> set (plane # planes). valid_position p}"
      using c10 c21 st' by auto
    have whole: "(\<exists>ts. res = Inr ts) \<longrightarrow>
          currentAircraftSet st' = currentAircraftSet st \<union> icao24 ` {p \<in> set (plane # planes). valid_position p}
          \<and> (\<forall>p \<in> set (plane # planes). valid_position p \<and> matching a aircraftInfoMap p
                \<and> icao24 p \<notin> previous \<longrightarrow> icao24 p \<in> alerted st')"
    proof (intro impI)
      assume "\<exists>ts. res = Inr ts"
      then have "\<exists>ts. r2 = Inr ts"
        using res by (cases r2) simp_all
      with whole2 have cur2: "currentAircraftSet st2 =
          currentAircraftSet st1 \<union> icao24 ` {p \<in> set planes. valid_position p}"
        and al2: "\<forall>p \<in> set planes. valid_position p \<and> matching a aircraftInfoMap p
                \<and> icao24 p \<notin> previous \<longrightarrow> icao24 p \<in> alerted st2"
        by simp_all
      have first: "valid_position plane \<and> matching a aircraftInfoMap plane \<and> icao24 plane \<notin> previous
          \<longrightarrow> icao24 plane \<in> alerted st2"
        using al1 a12 by (auto simp: fires_def)
      have "currentAircraftSet st2 =
          currentAircraftSet st \<union> icao24 ` {p \<in> set (plane # planes). valid_position p}"
        unfolding cur2 c10 by auto
      moreover have "\<forall>p \<in> set (plane # planes). valid_position p \<and> matching a aircraftInfoMap p
                \<and> icao24 p \<notin> previous \<longrightarrow> icao24 p \<in> alerted st2"
        using first al2 by simp
      ultimately
      show "currentAircraftSet st' = currentAircraftSet st \<union> icao24 ` {p \<in> set (plane # planes). valid_position p}
          \<and> (\<forall>p \<in> set (plane # planes). valid_position p \<and> matching a aircraftInfoMap p
                \<and> icao24 p \<notin> previous \<longrightarrow> icao24 p \<in> alerted st')"
        unfolding st' by (rule conjI)
    qed
    show ?thesis
      using part s1 s2 s3 s4 s5 whole by (intro conjI)
  qed
qed

lemma track_plane_call_planes:
  assumes "track_plane env a previous aircraftInfoMap plane st = (res, st')"
  shows "sink_plane ` set (calls st') \<subseteq> sink_plane ` set (calls st) \<union> {plane}"
  using assms
  by (auto simp: track_plane_def Let_def split: if_splits option.splits)

lemma map_planes_call_planes:
  assumes "map_planes (track_plane env a previous aircraftInfoMap) planes st = (res, st')"
  shows "sink_plane ` set (calls st') \<subseteq> sink_plane ` set (calls st) \<union> set planes"
  using assms
proof (induction planes arbitrary: st res st')
  case Nil
  then show ?case by auto
next
  case (Cons plane planes)
  obtain r1 st1 where eq1: "track_plane env a previous aircraftInfoMap plane st = (r1, st1)"
    by (cases "track_plane env a previous aircraftInfoMap plane st")
  note one = track_plane_call_planes [OF eq1]
  show ?case
  proof (cases r1)
    case (Inl err)
    with Cons.prems eq1 have "st' = st1"
      by simp
    with one show ?thesis
      by auto
  next
    case (Inr t)
    obtain r2 st2 where eq2:
      "map_planes (track_plane env a previous aircraftInfoMap) planes st1 = (r2, st2)"
      by (cases "map_planes (track_plane env a previous aircraftInfoMap) planes st1")
    have "map_planes (track_plane env a previous aircraftInfoMap) (plane # planes) st =
        (case r2 of Inl err \<Rightarrow> Inl err | Inr ts \<Rightarrow> Inr (t # ts), st2)"
      using eq1 Inr eq2 by (cases r2) simp_all
    with Cons.prems have "st' = st2"
      by simp
    with Cons.IH [OF eq2] one show ?thesis
      by auto
  qed
qed

lemma within_radius_valid_position: "within_radius lat lon radiusKm plane \<Longrightarrow> valid_position plane"
  by (auto simp: within_radius_def valid_position_def split: if_splits)

lemma nearby_valid:
  "{p \<in> set (getAircraftInRadius transport lat lon radiusKm). valid_position p}
     = set (getAircraftInRadius transport lat lon radiusKm)"
  using getAircraftInRadius_within within_radius_valid_position by blast

lemma runs_alert: "runs env \<longleftrightarrow> (\<exists>a. alert env = Some a \<and> active a \<and> enabled env)"
  by (simp add: runs_def split: option.splits)

lemma fetchAircraft_idle: "\<not> runs env \<Longrightarrow> fetchAircraft hexdb env w = (w, [])"
  by (auto simp: runs_def fetchAircraft_def split: option.splits)

lemma presence_runs:
  "alert env = Some a \<Longrightarrow> active a \<Longrightarrow> enabled env \<Longrightarrow>
     presence env = icao24 ` set (getAircraftInRadius (states_all env)
       (alert_latitude a) (alert_longitude a) (radius a))"
  by (simp add: presence_def)


text \<open>The sets and the sink calls of the \<^verbatim>\<open>map\<close> of a poll cycle.\<close>

lemma poll_map_inv:
  assumes a: "alert env = Some a" "active a" "enabled env"
    and pm: "poll_map hexdb env a w = (res, st)"
  shows "alertedAircraftRef w \<subseteq> alerted st
    \<and> alerted st \<subseteq> alertedAircraftRef w \<union> presence env
    \<and> alerted st - alertedAircraftRef w \<subseteq> currentAircraftSet st
    \<and> currentAircraftSet st \<subseteq> presence env
    \<and> (\<forall>ident. notifications ident (calls st) = newly ident (alertedAircraftRef w) (alerted st))
    \<and> (\<forall>err. res = Inl err \<longrightarrow> calls st \<noteq> [] \<and> sink_result env (last (calls st)) = Some err)
    \<and> ((\<exists>ts. res = Inr ts) \<longrightarrow>
          currentAircraftSet st = presence env
          \<and> (\<forall>ident \<in> presence env.
                matches hexdb (hexdb_st w) env ident \<and> ident \<notin> previousAircraftRef w
                \<longrightarrow> ident \<in> alerted st))
    \<and> sink_plane ` set (calls st)
        \<subseteq> set (getAircraftInRadius (states_all env)
                 (alert_latitude a) (alert_longitude a) (radius a))"
proof -
  define nearby where "nearby = getAircraftInRadius (states_all env)
      (alert_latitude a) (alert_longitude a) (radius a)"
  define im where "im = fst (getMultipleAircraftInfo hexdb (map icao24 nearby) (hexdb_st w))"
  define st0 where "st0 = \<lparr>currentAircraftSet = {}, alerted = alertedAircraftRef w, calls = []\<rparr>"
  have mp: "map_planes (track_plane env a (previousAircraftRef w) im) nearby st0 = (res, st)"
    using pm by (simp add: poll_map_def Let_def nearby_def im_def st0_def)
  have pres: "presence env = icao24 ` set nearby"
    using a by (simp add: presence_runs nearby_def)
  have valid: "{p \<in> set nearby. valid_position p} = set nearby"
    unfolding nearby_def by (rule nearby_valid)
  note inv = map_planes_inv [OF mp]
  have i1: "alertedAircraftRef w \<subseteq> alerted st"
    using inv [THEN conjunct1] by (simp add: st0_def)
  have i2: "alerted st \<subseteq> alertedAircraftRef w \<union> presence env"
    using inv [THEN conjunct2, THEN conjunct1] by (simp add: st0_def valid pres)
  have i3: "alerted st - alertedAircraftRef w \<subseteq> currentAircraftSet st"
    using inv [THEN conjunct2, THEN conjunct2, THEN conjunct1] by (simp add: st0_def)
  have i5: "currentAircraftSet st \<subseteq> presence env"
    using inv [THEN conjunct2, THEN conjunct2, THEN conjunct2, THEN conjunct2, THEN conjunct1]
    by (simp add: st0_def valid pres)
  have "\<exists>new. calls st = calls st0 @ new
          \<and> (\<forall>ident. notifications ident new = newly ident (alerted st0) (alerted st))
          \<and> (\<forall>err. res = Inl err \<longrightarrow> new \<noteq> [] \<and> sink_result env (last new) = Some err)"
    using inv [THEN conjunct2, THEN conjunct2, THEN conjunct2, THEN conjunct2, THEN conjunct2]
    by (rule conjunct1)
  then have i6: "\<forall>ident. notifications ident (calls st) = newly ident (alertedAircraftRef w) (alerted st)"
    and i7: "\<forall>err. res = Inl err \<longrightarrow> calls st \<noteq> [] \<and> sink_result env (last (calls st)) = Some err"
    by (auto simp: st0_def)
  have i8: "(\<exists>ts. res = Inr ts) \<longrightarrow>
          currentAircraftSet st = currentAircraftSet st0 \<union> icao24 ` {p \<in> set nearby. valid_position p}
          \<and> (\<forall>p \<in> set nearby. valid_position p \<and> matching a im p
                \<and> icao24 p \<notin> previousAircraftRef w \<longrightarrow> icao24 p \<in> alerted st)"
    using inv [THEN conjunct2, THEN conjunct2, THEN conjunct2, THEN conjunct2, THEN conjunct2]
    by (rule conjunct2)
  have planes: "sink_plane ` set (calls st) \<subseteq> set nearby"
    using map_planes_call_planes [OF mp] by (simp add: st0_def)
  have im: "im k = (if k \<in> icao24 ` set nearby then Some (resolved hexdb (hexdb_st w) k) else None)" for k
    by (simp add: im_def getMultipleAircraftInfo_results)
  have m: "matching a im p \<longleftrightarrow> matches hexdb (hexdb_st w) env (icao24 p)" if "p \<in> set nearby" for p
    using that a by (simp add: matching_def matches_def im split: option.splits)
  have ok: "(\<exists>ts. res = Inr ts) \<longrightarrow>
          currentAircraftSet st = presence env
          \<and> (\<forall>ident \<in> presence env.
                matches hexdb (hexdb_st w) env ident \<and> ident \<notin> previousAircraftRef w
                \<longrightarrow> ident \<in> alerted st)"
  proof (intro impI)
    assume "\<exists>ts. res = Inr ts"
    with i8 have cur: "currentAircraftSet st = presence env"
      and al: "\<forall>p \<in> set nearby. valid_position p \<and> matching a im p
                \<and> icao24 p \<notin> previousAircraftRef w \<longrightarrow> icao24 p \<in> alerted st"
      by (simp_all add: st0_def valid pres)
    have "\<forall>ident \<in> presence env.
                matches hexdb (hexdb_st w) env ident \<and> ident \<notin> previousAircraftRef w
                \<longrightarrow> ident \<in> alerted st"
    proof (intro ballI impI)
      fix ident
      assume "ident \<in> presence env"
        and hyp: "matches hexdb (hexdb_st w) env ident \<and> ident \<notin> previousAircraftRef w"
      then obtain p where p: "p \<in> set nearby" "ident = icao24 p"
        by (auto simp: pres)
      then have "valid_position p"
        using valid by blast
      with al p hyp m [OF p(1)] show "ident \<in> alerted st"
        by simp
    qed
    with cur show "currentAircraftSet st = presence env
          \<and> (\<forall>ident \<in> presence env.
                matches hexdb (hexdb_st w) env ident \<and> ident \<notin> previousAircraftRef w
                \<longrightarrow> ident \<in> alerted st)"
      by (rule conjI)
  qed
  show ?thesis
    using i1 i2 i3 i5 i6 i7 ok planes unfolding nearby_def by (intro conjI)
qed

lemmas poll_map_grows = poll_map_inv [THEN conjunct1]
lemmas poll_map_bound = poll_map_inv [THEN conjunct2, THEN conjunct1]
lemmas poll_map_new = poll_map_inv [THEN conjunct2, THEN conjunct2, THEN conjunct1]
lemmas poll_map_count =
  poll_map_inv [THEN conjunct2, THEN conjunct2, THEN conjunct2, THEN conjunct2, THEN conjunct1, rule_format]
lemmas poll_map_thrown =
  poll_map_inv [THEN conjunct2, THEN conjunct2, THEN conjunct2, THEN conjunct2, THEN conjunct2,
    THEN conjunct1, rule_format]
lemmas poll_map_planes =
  poll_map_inv [THEN conjunct2, THEN conjunct2, THEN conjunct2, THEN conjunct2, THEN conjunct2,
    THEN conjunct2, THEN conjunct2]

text \<open>What \<^verbatim>\<open>fetchAircraft\<close> makes of the result of the \<^verbatim>\<open>map\<close>.\<close>

lemma fetchAircraft_returned:
  assumes "alert env = Some a" "active a" "enabled env"
    and "poll_map hexdb env a w = (Inr ts, st)"
  shows "snd (fetchAircraft hexdb env w) = calls st"
    and "error (fst (fetchAircraft hexdb env w)) = None"
    and "alertedAircraftRef (fst (fetchAircraft hexdb env w)) = alerted st \<inter> currentAircraftSet st"
    and "previousAircraftRef (fst (fetchAircraft hexdb env w)) = currentAircraftSet st"
    and "isLoading (fst (fetchAircraft hexdb env w)) = False"
  using assms by (simp_all add: fetchAircraft_def poll_map_def Let_def split_beta)

lemma fetchAircraft_thrown:
  assumes "alert env = Some a" "active a" "enabled env"
    and "poll_map hexdb env a w = (Inl err, st)"
  shows "snd (fetchAircraft hexdb env w) = calls st"
    and "error (fst (fetchAircraft hexdb env w)) = Some (error_message err)"
    and "alertedAircraftRef (fst (fetchAircraft hexdb env w)) = alerted st"
    and "previousAircraftRef (fst (fetchAircraft hexdb env w)) = previousAircraftRef w"
    and "aircraft (fst (fetchAircraft hexdb env w)) = aircraft w"
    and "lastUpdate (fst (fetchAircraft hexdb env w)) = lastUpdate w"
    and "isLoading (fst (fetchAircraft hexdb env w)) = False"
  using assms by (simp_all add: fetchAircraft_def poll_map_def Let_def split_beta)


section \<open>Poll cycles\<close>









lemma polls_Cons:
  "polls hexdb (env # envs) w =
     (fst (polls hexdb envs (fst (fetchAircraft hexdb env w))),
      snd (fetchAircraft hexdb env w) # snd (polls hexdb envs (fst (fetchAircraft hexdb env w))))"
  by (simp add: polls.simps(2) split_beta)

lemma polls_append:
  "polls hexdb (envs @ envs') w =
     (fst (polls hexdb envs' (fst (polls hexdb envs w))),
      snd (polls hexdb envs w) @ snd (polls hexdb envs' (fst (polls hexdb envs w))))"
  by (induction envs arbitrary: w) (simp_all add: polls_Cons)






section \<open>The sample poll cycles\<close>


lemma sample_env_runs: "runs (sample_env rows notify)"
  by (simp add: runs_def sample_env_def sample_alert_def)

lemma sample_env_presence:
  "presence (sample_env rows notify)
     = icao24 ` set (filter (within_radius 59 18 50) (map parseAircraft rows))"
  by (simp add: presence_def sample_env_def sample_alert_def getAircraftInRadius_sample_feed)

lemma icao24_row_near: "icao24 (parseAircraft row_near) = ''4ac9e3''"
  by (simp add: parseAircraft_position row_near_def sample_state_def)


lemma presence_poll_refused: "presence poll_refused = {''4ac9e3''}"
  by (simp add: poll_refused_def sample_env_presence within_radius_row_near icao24_row_near)



lemma resolved_sample:
  "resolved sample_hexdb (hexdb_st initial_tracker) ''4ac9e3'' =
     Some \<lparr>ICAOTypeCode = Some ''B738'', Manufacturer = Some ''Boeing'',
             ModeS = Some ''4AC9E3'', OperatorFlagCode = Some ''SAS'',
             RegisteredOwners = Some ''SAS'', Registration = Some ''SE-RPE'',
             Type = Some ''737-800''\<rparr>"
  by (simp add: resolved_def initial_tracker_def settle_def sample_hexdb_def)


lemma position_row_near:
  "latitude (parseAircraft row_near) = Some 59" "longitude (parseAircraft row_near) = Some 18"
  by (simp_all add: parseAircraft_position row_near_def sample_state_def num_or_undefined_def)

lemma initial_tracker_refs:
  "previousAircraftRef initial_tracker = {}" "alertedAircraftRef initial_tracker = {}"
  by (simp_all add: initial_tracker_def)

lemma poll_map_refused:
  "fst (poll_map sample_hexdb poll_refused sample_alert initial_tracker)
     = Inl (ErrorObject ''Illegal constructor'')
   \<and> alerted (snd (poll_map sample_hexdb poll_refused sample_alert initial_tracker)) = {''4ac9e3''}"
  by (simp add: poll_map_def poll_refused_def sample_env_def sample_alert_def
      getAircraftInRadius_sample_feed within_radius_row_near getMultipleAircraftInfo_results
      icao24_row_near resolved_sample track_plane_def Let_def position_row_near
      falsy_num_def initial_tracker_refs
      mapTypeToModel_B738 AIRCRAFT_MODELS_B737 illegal_constructor_def returns_def)

section \<open>Alerts are per visit\<close>





section \<open>A poll cycle that fails\<close>

lemma sample_env_alert:
  "alert (sample_env rows notify) = Some sample_alert" "active sample_alert"
  "enabled (sample_env rows notify)"
  by (simp_all add: sample_env_def sample_alert_def)

lemma poll_refused_outcome:
  "error (fst (fetchAircraft sample_hexdb poll_refused initial_tracker)) = Some ''Illegal constructor''"
  "alertedAircraftRef (fst (fetchAircraft sample_hexdb poll_refused initial_tracker)) = {''4ac9e3''}"
proof -
  obtain st where pm: "poll_map sample_hexdb poll_refused sample_alert initial_tracker
      = (Inl (ErrorObject ''Illegal constructor''), st)"
    and al: "alerted st = {''4ac9e3''}"
    using poll_map_refused
    by (cases "poll_map sample_hexdb poll_refused sample_alert initial_tracker") simp
  have a: "alert poll_refused = Some sample_alert" "active sample_alert" "enabled poll_refused"
    by (simp_all add: poll_refused_def sample_env_alert)
  show "error (fst (fetchAircraft sample_hexdb poll_refused initial_tracker)) = Some ''Illegal constructor''"
    by (simp add: fetchAircraft_thrown(2) [OF a pm] error_message_def)
  show "alertedAircraftRef (fst (fetchAircraft sample_hexdb poll_refused initial_tracker)) = {''4ac9e3''}"
    by (simp add: fetchAircraft_thrown(3) [OF a pm] al)
qed

text \<open>
  C3, as stated, fails: the browser refuses the notification for the Boeing, the cycle
  ends with that error, and the alerted set, empty before, holds the Boeing after.
\<close>

theorem fetchAircraft_failure_counterexample:
  "runs poll_refused
   \<and> error (fst (fetchAircraft sample_hexdb poll_refused initial_tracker)) = Some ''Illegal constructor''
   \<and> alertedAircraftRef initial_tracker = {}
   \<and> alertedAircraftRef (fst (fetchAircraft sample_hexdb poll_refused initial_tracker)) = {''4ac9e3''}
   \<and> alertedAircraftRef (fst (fetchAircraft sample_hexdb poll_refused initial_tracker))
       \<noteq> alertedAircraftRef initial_tracker"
proof -
  have "runs poll_refused"
    by (simp add: poll_refused_def sample_env_runs)
  then show ?thesis
    by (simp add: poll_refused_outcome initial_tracker_refs)
qed

text \<open>
  The sink calls of a cycle: every call but the last returned, and in a cycle that runs
  to its end every call returned.
\<close>

lemma track_plane_returned:
  assumes "track_plane env a previous aircraftInfoMap plane st = (res, st')"
  shows "\<exists>new. calls st' = calls st @ new
    \<and> (\<forall>c \<in> set (butlast new). sink_result env c = None)
    \<and> ((\<exists>t. res = Inr t) \<longrightarrow> (\<forall>c \<in> set new. sink_result env c = None))"
  using assms
  by (auto simp: track_plane_def Let_def split: if_splits option.splits)

lemma map_planes_returned:
  assumes "map_planes (track_plane env a previous aircraftInfoMap) planes st = (res, st')"
  shows "\<exists>new. calls st' = calls st @ new
    \<and> (\<forall>c \<in> set (butlast new). sink_result env c = None)
    \<and> ((\<exists>ts. res = Inr ts) \<longrightarrow> (\<forall>c \<in> set new. sink_result env c = None))"
  using assms
proof (induction planes arbitrary: st res st')
  case Nil
  then show ?case by auto
next
  case (Cons plane planes)
  obtain r1 st1 where eq1: "track_plane env a previous aircraftInfoMap plane st = (r1, st1)"
    by (cases "track_plane env a previous aircraftInfoMap plane st")
  from track_plane_returned [OF eq1] obtain new1 where
    calls1: "calls st1 = calls st @ new1"
    and b1: "\<forall>c \<in> set (butlast new1). sink_result env c = None"
    and r1: "(\<exists>t. r1 = Inr t) \<longrightarrow> (\<forall>c \<in> set new1. sink_result env c = None)"
    by blast
  show ?case
  proof (cases r1)
    case (Inl err)
    with Cons.prems eq1 have "res = Inl err" "st' = st1"
      by simp_all
    with calls1 b1 show ?thesis
      by auto
  next
    case (Inr t)
    obtain r2 st2 where eq2:
      "map_planes (track_plane env a previous aircraftInfoMap) planes st1 = (r2, st2)"
      by (cases "map_planes (track_plane env a previous aircraftInfoMap) planes st1")
    have "map_planes (track_plane env a previous aircraftInfoMap) (plane # planes) st =
        (case r2 of Inl err \<Rightarrow> Inl err | Inr ts \<Rightarrow> Inr (t # ts), st2)"
      using eq1 Inr eq2 by (cases r2) simp_all
    with Cons.prems have st': "st' = st2"
      and res: "res = (case r2 of Inl err \<Rightarrow> Inl err | Inr ts \<Rightarrow> Inr (t # ts))"
      by simp_all
    from Cons.IH [OF eq2] obtain new2 where
      calls2: "calls st2 = calls st1 @ new2"
      and b2: "\<forall>c \<in> set (butlast new2). sink_result env c = None"
      and r2: "(\<exists>ts. r2 = Inr ts) \<longrightarrow> (\<forall>c \<in> set new2. sink_result env c = None)"
      by blast
    from r1 Inr have all1: "\<forall>c \<in> set new1. sink_result env c = None"
      by simp
    have "calls st' = calls st @ (new1 @ new2)"
      using calls1 calls2 st' by simp
    moreover have "\<forall>c \<in> set (butlast (new1 @ new2)). sink_result env c = None"
      using all1 b2 by (auto simp: butlast_append dest: in_set_butlastD)
    moreover have "(\<exists>ts. res = Inr ts) \<longrightarrow> (\<forall>c \<in> set (new1 @ new2). sink_result env c = None)"
      using all1 r2 res by (cases r2) auto
    ultimately show ?thesis
      by blast
  qed
qed

lemma poll_map_returned:
  assumes "poll_map hexdb env a w = (res, st)"
  shows "(\<forall>c \<in> set (butlast (calls st)). sink_result env c = None)
    \<and> ((\<exists>ts. res = Inr ts) \<longrightarrow> (\<forall>c \<in> set (calls st). sink_result env c = None))"
proof -
  define nearby where "nearby = getAircraftInRadius (states_all env)
      (alert_latitude a) (alert_longitude a) (radius a)"
  define im where "im = fst (getMultipleAircraftInfo hexdb (map icao24 nearby) (hexdb_st w))"
  define st0 where "st0 = \<lparr>currentAircraftSet = {}, alerted = alertedAircraftRef w, calls = []\<rparr>"
  have mp: "map_planes (track_plane env a (previousAircraftRef w) im) nearby st0 = (res, st)"
    using assms by (simp add: poll_map_def Let_def nearby_def im_def st0_def)
  from map_planes_returned [OF mp] show ?thesis
    by (simp add: st0_def)
qed

lemma fetchAircraft_calls_returned:
  assumes "\<forall>c \<in> set (butlast cs). sink_result env c = None"
    and "call \<in> set cs" "sink_result env call = Some err"
  shows "call = last cs"
proof -
  from assms(2) have "cs \<noteq> []"
    by auto
  then have "cs = butlast cs @ [last cs]"
    by simp
  then have "set cs = set (butlast cs) \<union> {last cs}"
    by (metis list.set(1) list.simps(15) set_append)
  with assms show ?thesis
    by auto
qed

text \<open>
  C3, as amended. A poll cycle in which a call of a notification sink
  (\<^verbatim>\<open>toast.success\<close> or \<^verbatim>\<open>new Notification\<close>) throws: the message of what was thrown is
  stored as the error and the loading flag is reset; the call that threw is the last
  sink call of the cycle and every call before it returned. The previous-presence set,
  the aircraft list and the time of the last update are as before the cycle. The alerted
  set is not restored: it keeps what it held and has gained exactly the identifiers for
  which the cycle called \<^verbatim>\<open>toast.success\<close>, one call each and each for an aircraft in
  range, whether that call returned or threw. And a cycle that runs stores an error only
  if a sink call threw: what the two providers throw is caught inside them.
\<close>

theorem fetchAircraft_failure:
  "(fetchAircraft hexdb env w = (w', cs) \<and> call \<in> set cs \<and> sink_result env call = Some err \<longrightarrow>
      error w' = Some (error_message err)
      \<and> isLoading w' = False
      \<and> call = last cs
      \<and> (\<forall>c \<in> set (butlast cs). sink_result env c = None)
      \<and> previousAircraftRef w' = previousAircraftRef w
      \<and> aircraft w' = aircraft w
      \<and> lastUpdate w' = lastUpdate w
      \<and> alertedAircraftRef w \<subseteq> alertedAircraftRef w'
      \<and> alertedAircraftRef w' \<subseteq> alertedAircraftRef w \<union> presence env
      \<and> (\<forall>ident. notifications ident cs
            = (if ident \<in> alertedAircraftRef w' \<and> ident \<notin> alertedAircraftRef w then 1 else 0)))
   \<and> (runs env \<and> fetchAircraft hexdb env w = (w', cs) \<and> error w' = Some msg \<longrightarrow>
        (\<exists>call err. call \<in> set cs \<and> sink_result env call = Some err \<and> msg = error_message err))"
proof (rule conjI; rule impI)
  assume hyp: "fetchAircraft hexdb env w = (w', cs) \<and> call \<in> set cs \<and> sink_result env call = Some err"
  then have w': "w' = fst (fetchAircraft hexdb env w)" and cs: "cs = snd (fetchAircraft hexdb env w)"
    by simp_all
  have "runs env"
  proof (rule ccontr)
    assume "\<not> runs env"
    then have "fetchAircraft hexdb env w = (w, [])"
      by (rule fetchAircraft_idle)
    with hyp show False
      by auto
  qed
  then obtain a where a: "alert env = Some a" "active a" "enabled env"
    by (auto simp: runs_alert)
  obtain res st where pm: "poll_map hexdb env a w = (res, st)"
    by (cases "poll_map hexdb env a w")
  note ret = poll_map_returned [OF pm]
  have "\<exists>e. res = Inl e"
  proof (cases res)
    case (Inl e)
    then show ?thesis by simp
  next
    case (Inr ts)
    with a pm have "cs = calls st"
      by (simp add: cs fetchAircraft_returned)
    with ret Inr hyp show ?thesis
      by auto
  qed
  then obtain e where pm': "poll_map hexdb env a w = (Inl e, st)"
    using pm by auto
  note out = fetchAircraft_thrown [OF a pm']
  have calls: "cs = calls st"
    by (simp add: cs out(1))
  have before: "\<forall>c \<in> set (butlast cs). sink_result env c = None"
    using ret by (simp add: calls)
  have last: "call = last cs"
    using before hyp by (intro fetchAircraft_calls_returned [of cs env call err]) simp_all
  have "sink_result env (last cs) = Some e"
    using poll_map_thrown [OF a pm', of e] by (simp add: calls)
  with last hyp have e: "e = err"
    by simp
  have count: "\<forall>ident. notifications ident cs
           = (if ident \<in> alertedAircraftRef w' \<and> ident \<notin> alertedAircraftRef w then 1 else 0)"
    using poll_map_count [OF a pm'] by (simp add: cs w' out(1,3) newly_def)
  have grows: "alertedAircraftRef w \<subseteq> alertedAircraftRef w'"
    using poll_map_grows [OF a pm'] by (simp add: w' out(3))
  have bound: "alertedAircraftRef w' \<subseteq> alertedAircraftRef w \<union> presence env"
    using poll_map_bound [OF a pm'] by (simp add: w' out(3))
  have err: "error w' = Some (error_message err)"
    using out(2) e by (simp add: w')
  show "error w' = Some (error_message err)
      \<and> isLoading w' = False
      \<and> call = last cs
      \<and> (\<forall>c \<in> set (butlast cs). sink_result env c = None)
      \<and> previousAircraftRef w' = previousAircraftRef w
      \<and> aircraft w' = aircraft w
      \<and> lastUpdate w' = lastUpdate w
      \<and> alertedAircraftRef w \<subseteq> alertedAircraftRef w'
      \<and> alertedAircraftRef w' \<subseteq> alertedAircraftRef w \<union> presence env
      \<and> (\<forall>ident. notifications ident cs
            = (if ident \<in> alertedAircraftRef w' \<and> ident \<notin> alertedAircraftRef w then 1 else 0))"
    using err last before count grows bound out(4,5,6,7) unfolding w' by (intro conjI)
next
  assume hyp: "runs env \<and> fetchAircraft hexdb env w = (w', cs) \<and> error w' = Some msg"
  then obtain a where a: "alert env = Some a" "active a" "enabled env"
    by (auto simp: runs_alert)
  obtain res st where pm: "poll_map hexdb env a w = (res, st)"
    by (cases "poll_map hexdb env a w")
  from hyp have w': "w' = fst (fetchAircraft hexdb env w)" and cs: "cs = snd (fetchAircraft hexdb env w)"
    by simp_all
  have "\<exists>err. res = Inl err"
  proof (cases res)
    case (Inl err)
    then show ?thesis by simp
  next
    case (Inr ts)
    with a pm hyp show ?thesis
      by (simp add: w' fetchAircraft_returned)
  qed
  then obtain err where pm': "poll_map hexdb env a w = (Inl err, st)"
    using pm by auto
  note out = fetchAircraft_thrown [OF a pm']
  have msg: "msg = error_message err"
    using hyp out(2) by (simp add: w')
  have "cs \<noteq> [] \<and> sink_result env (last cs) = Some err"
    using poll_map_thrown [OF a pm', of err] by (simp add: cs out(1))
  then have "last cs \<in> set cs \<and> sink_result env (last cs) = Some err"
    by simp
  with msg show "\<exists>call err. call \<in> set cs \<and> sink_result env call = Some err \<and> msg = error_message err"
    by blast
qed

lemma poll_refused_thrown:
  "snd (fetchAircraft sample_hexdb poll_refused initial_tracker) \<noteq> []"
  "sink_result poll_refused (last (snd (fetchAircraft sample_hexdb poll_refused initial_tracker)))
     = Some (ErrorObject ''Illegal constructor'')"
proof -
  obtain st where pm: "poll_map sample_hexdb poll_refused sample_alert initial_tracker
      = (Inl (ErrorObject ''Illegal constructor''), st)"
    using poll_map_refused
    by (cases "poll_map sample_hexdb poll_refused sample_alert initial_tracker") simp
  have a: "alert poll_refused = Some sample_alert" "active sample_alert" "enabled poll_refused"
    by (simp_all add: poll_refused_def sample_env_alert)
  note thrown = poll_map_thrown [OF a pm, of "ErrorObject ''Illegal constructor''"]
  show "snd (fetchAircraft sample_hexdb poll_refused initial_tracker) \<noteq> []"
    using thrown by (simp add: fetchAircraft_thrown(1) [OF a pm])
  show "sink_result poll_refused (last (snd (fetchAircraft sample_hexdb poll_refused initial_tracker)))
     = Some (ErrorObject ''Illegal constructor'')"
    using thrown by (simp add: fetchAircraft_thrown(1) [OF a pm])
qed

theorem fetchAircraft_failure_witness:
  "last (snd (fetchAircraft sample_hexdb poll_refused initial_tracker))
     \<in> set (snd (fetchAircraft sample_hexdb poll_refused initial_tracker))
   \<and> sink_result poll_refused (last (snd (fetchAircraft sample_hexdb poll_refused initial_tracker)))
       = Some (ErrorObject ''Illegal constructor'')
   \<and> runs poll_refused
   \<and> error (fst (fetchAircraft sample_hexdb poll_refused initial_tracker)) = Some ''Illegal constructor''
   \<and> previousAircraftRef (fst (fetchAircraft sample_hexdb poll_refused initial_tracker)) = {}
   \<and> alertedAircraftRef (fst (fetchAircraft sample_hexdb poll_refused initial_tracker)) = {''4ac9e3''}
   \<and> notifications ''4ac9e3'' (snd (fetchAircraft sample_hexdb poll_refused initial_tracker)) = 1
   \<and> isLoading (fst (fetchAircraft sample_hexdb poll_refused initial_tracker)) = False
   \<and> (\<exists>call err. call \<in> set (snd (fetchAircraft sample_hexdb poll_refused initial_tracker))
          \<and> sink_result poll_refused call = Some err
          \<and> ''Illegal constructor'' = error_message err)"
proof -
  have run: "runs poll_refused"
    by (simp add: poll_refused_def sample_env_runs)
  have made: "last (snd (fetchAircraft sample_hexdb poll_refused initial_tracker))
     \<in> set (snd (fetchAircraft sample_hexdb poll_refused initial_tracker))"
    using poll_refused_thrown(1) by simp
  note inst = fetchAircraft_failure [of sample_hexdb poll_refused initial_tracker
      "fst (fetchAircraft sample_hexdb poll_refused initial_tracker)"
      "snd (fetchAircraft sample_hexdb poll_refused initial_tracker)"
      "last (snd (fetchAircraft sample_hexdb poll_refused initial_tracker))"
      "ErrorObject ''Illegal constructor''" "''Illegal constructor''"]
  from inst [THEN conjunct1] made poll_refused_thrown(2)
  have concl: "error (fst (fetchAircraft sample_hexdb poll_refused initial_tracker))
         = Some (error_message (ErrorObject ''Illegal constructor''))
     \<and> isLoading (fst (fetchAircraft sample_hexdb poll_refused initial_tracker)) = False
     \<and> previousAircraftRef (fst (fetchAircraft sample_hexdb poll_refused initial_tracker))
         = previousAircraftRef initial_tracker
     \<and> (\<forall>ident. notifications ident (snd (fetchAircraft sample_hexdb poll_refused initial_tracker))
           = (if ident \<in> alertedAircraftRef (fst (fetchAircraft sample_hexdb poll_refused initial_tracker))
                 \<and> ident \<notin> alertedAircraftRef initial_tracker then 1 else 0))"
    by simp
  then have once: "notifications ''4ac9e3'' (snd (fetchAircraft sample_hexdb poll_refused initial_tracker)) = 1"
    by (simp add: poll_refused_outcome(2) initial_tracker_refs)
  from concl have surfaced: "error (fst (fetchAircraft sample_hexdb poll_refused initial_tracker))
      = Some ''Illegal constructor''"
    by (simp add: error_message_def)
  from inst [THEN conjunct2] run surfaced
  have only: "\<exists>call err. call \<in> set (snd (fetchAircraft sample_hexdb poll_refused initial_tracker))
          \<and> sink_result poll_refused call = Some err
          \<and> ''Illegal constructor'' = error_message err"
    by simp
  from concl have rest: "isLoading (fst (fetchAircraft sample_hexdb poll_refused initial_tracker)) = False"
    "previousAircraftRef (fst (fetchAircraft sample_hexdb poll_refused initial_tracker)) = {}"
    by (simp_all add: initial_tracker_refs)
  show ?thesis
    using made poll_refused_thrown(2) run surfaced rest poll_refused_outcome(2) once only
    by (intro conjI)
qed

section \<open>The name of the matched model\<close>

lemma track_plane_refused:
  "fst (track_plane poll_refused sample_alert {}
          [''4ac9e3'' \<mapsto> resolved sample_hexdb (hexdb_st initial_tracker) ''4ac9e3'']
          (parseAircraft row_near)
          \<lparr>currentAircraftSet = {}, alerted = {}, calls = []\<rparr>)
     = Inl (ErrorObject ''Illegal constructor'')"
  by (simp add: poll_refused_def sample_env_def sample_alert_def
      icao24_row_near resolved_sample track_plane_def Let_def position_row_near
      falsy_num_def mapTypeToModel_B738 AIRCRAFT_MODELS_B737 illegal_constructor_def returns_def)

text \<open>
  C9. Every value of the type table is a key of the model table, so the model key
  \<^verbatim>\<open>mapTypeToModel\<close> returns has an entry, and with it a name, in \<^verbatim>\<open>AIRCRAFT_MODELS\<close>.
  Hence the callback never throws on the name lookup: whatever it throws was thrown
  by a notification sink.
\<close>

theorem model_name_defined:
  "(\<forall>kv \<in> set typeMap. \<exists>model. map_of AIRCRAFT_MODELS (snd kv) = Some model)
   \<and> (mapTypeToModel typeCode = Some m \<longrightarrow> (\<exists>model. map_of AIRCRAFT_MODELS m = Some model))
   \<and> (track_plane env a previous aircraftInfoMap plane st = (Inl err, st')
        \<longrightarrow> (\<exists>call. sink_result env call = Some err))"
proof (intro conjI ballI impI)
  fix kv
  assume "kv \<in> set typeMap"
  then have "snd kv \<in> fst ` set AIRCRAFT_MODELS"
    using typeMap_values_are_models by (simp add: list_all_iff)
  then have "map_of AIRCRAFT_MODELS (snd kv) \<noteq> None"
    by (simp add: map_of_eq_None_iff)
  then show "\<exists>model. map_of AIRCRAFT_MODELS (snd kv) = Some model"
    by auto
next
  assume "mapTypeToModel typeCode = Some m"
  then show "\<exists>model. map_of AIRCRAFT_MODELS m = Some model"
    by (rule mapTypeToModel_is_model)
next
  assume eq: "track_plane env a previous aircraftInfoMap plane st = (Inl err, st')"
  from track_plane_step [of env a previous aircraftInfoMap plane st] obtain res st1 new where
    "track_plane env a previous aircraftInfoMap plane st = (res, st1)"
    "\<forall>err. res = Inl err \<longrightarrow>
          fires a previous aircraftInfoMap plane st \<and> new \<noteq> [] \<and> sink_result env (last new) = Some err"
    by blast
  with eq have "sink_result env (last new) = Some err"
    by simp
  then show "\<exists>call. sink_result env call = Some err"
    by blast
qed

theorem model_name_defined_witness:
  "(''B738'', ''B737'') \<in> set typeMap
   \<and> mapTypeToModel (Some ''B738'') = Some ''B737''
   \<and> (\<exists>model. map_of AIRCRAFT_MODELS ''B737'' = Some model)
   \<and> fst (track_plane poll_refused sample_alert {}
          [''4ac9e3'' \<mapsto> resolved sample_hexdb (hexdb_st initial_tracker) ''4ac9e3'']
          (parseAircraft row_near)
          \<lparr>currentAircraftSet = {}, alerted = {}, calls = []\<rparr>)
       = Inl (ErrorObject ''Illegal constructor'')
   \<and> (\<exists>call. sink_result poll_refused call = Some (ErrorObject ''Illegal constructor''))"
proof -
  define st' where "st' = snd (track_plane poll_refused sample_alert {}
          [''4ac9e3'' \<mapsto> resolved sample_hexdb (hexdb_st initial_tracker) ''4ac9e3'']
          (parseAircraft row_near)
          \<lparr>currentAircraftSet = {}, alerted = {}, calls = []\<rparr>)"
  note inst = model_name_defined [of "Some ''B738''" "''B737''" poll_refused sample_alert "{}"
      "[''4ac9e3'' \<mapsto> resolved sample_hexdb (hexdb_st initial_tracker) ''4ac9e3'']"
      "parseAircraft row_near" "\<lparr>currentAircraftSet = {}, alerted = {}, calls = []\<rparr>"
      "ErrorObject ''Illegal constructor''" st']
  have mem: "(''B738'', ''B737'') \<in> set typeMap"
    using map_of_typeMap_B738 by (rule map_of_SomeD)
  have thrown: "track_plane poll_refused sample_alert {}
          [''4ac9e3'' \<mapsto> resolved sample_hexdb (hexdb_st initial_tracker) ''4ac9e3'']
          (parseAircraft row_near)
          \<lparr>currentAircraftSet = {}, alerted = {}, calls = []\<rparr>
      = (Inl (ErrorObject ''Illegal constructor''), st')"
    using track_plane_refused by (simp add: st'_def prod_eq_iff)
  from inst mem have "\<exists>model. map_of AIRCRAFT_MODELS (snd (''B738'', ''B737'')) = Some model"
    by blast
  then have "\<exists>model. map_of AIRCRAFT_MODELS ''B737'' = Some model"
    by simp
  moreover from inst thrown
  have "\<exists>call. sink_result poll_refused call = Some (ErrorObject ''Illegal constructor'')"
    by blast
  ultimately show ?thesis
    using mem mapTypeToModel_B738 track_plane_refused by blast
qed

section \<open>Aircraft on the equator or the prime meridian\<close>

lemma fetchAircraft_call_planes:
  assumes "alert env = Some a" "active a" "enabled env"
  shows "sink_plane ` set (snd (fetchAircraft hexdb env w))
    \<subseteq> set (getAircraftInRadius (states_all env) (alert_latitude a) (alert_longitude a) (radius a))"
proof -
  obtain res st where pm: "poll_map hexdb env a w = (res, st)"
    by (cases "poll_map hexdb env a w")
  have "snd (fetchAircraft hexdb env w) = calls st"
  proof (cases res)
    case (Inl err)
    with assms pm show ?thesis
      by (simp add: fetchAircraft_thrown)
  next
    case (Inr ts)
    with assms pm show ?thesis
      by (simp add: fetchAircraft_returned)
  qed
  with poll_map_planes [OF assms pm] show ?thesis
    by simp
qed

lemma zero_not_within:
  assumes "state_5 state = Value 0 \<or> state_6 state = Value 0"
  shows "\<not> within_radius lat lon radiusKm (parseAircraft state)"
  using assms
  by (auto simp: within_radius_def parseAircraft_position num_or_undefined_def falsy_num_def)

text \<open>
  C10. A state vector whose longitude or latitude is the number \<open>0\<close> parses to an
  aircraft without a position: the radius query never returns it, whatever the
  centre and the radius, and no sink call of a poll cycle is about it.
\<close>

theorem zero_coordinate_excluded:
  "state_5 state = Value 0 \<or> state_6 state = Value 0 \<longrightarrow>
     parseAircraft state \<notin> set (getAircraftInRadius transport lat lon radiusKm)
     \<and> parseAircraft state \<notin> sink_plane ` set (snd (fetchAircraft hexdb env w))"
proof (intro impI conjI)
  assume zero: "state_5 state = Value 0 \<or> state_6 state = Value 0"
  have out: "parseAircraft state \<notin> set (getAircraftInRadius transport lat lon radiusKm)"
    for transport lat lon radiusKm
    using zero_not_within [OF zero] getAircraftInRadius_within by blast
  then show "parseAircraft state \<notin> set (getAircraftInRadius transport lat lon radiusKm)" .
  show "parseAircraft state \<notin> sink_plane ` set (snd (fetchAircraft hexdb env w))"
  proof (cases "runs env")
    case True
    then obtain a where a: "alert env = Some a" "active a" "enabled env"
      by (auto simp: runs_alert)
    from fetchAircraft_call_planes [OF a, of hexdb w] out show ?thesis
      by blast
  next
    case False
    then show ?thesis
      by (simp add: fetchAircraft_idle)
  qed
qed

theorem zero_coordinate_excluded_witness:
  "state_5 row_meridian = Value 0
   \<and> calculateDistance 51.5 0 51.5 0 \<le> 50
   \<and> parseAircraft row_meridian \<notin> set (getAircraftInRadius (sample_feed [row_meridian]) 51.5 0 50)
   \<and> parseAircraft row_meridian
       \<notin> sink_plane ` set (snd (fetchAircraft sample_hexdb (sample_env [row_meridian] returns) initial_tracker))"
proof -
  have zero: "state_5 row_meridian = Value 0"
    by (simp add: row_meridian_def sample_state_def)
  from zero_coordinate_excluded [of row_meridian "sample_feed [row_meridian]" "51.5" 0 50
      sample_hexdb "sample_env [row_meridian] returns" initial_tracker] zero
  show ?thesis
    by (simp add: calculateDistance_self)
qed

end
